theory Spec2Isabelle
  imports Main
begin

section \<open>Identifiers, JavaScript values and the document store\<close>

text \<open>
  A model of the marketplace backend's handlers for orders, reviews, login, messaging and
  gig images. A handler is a function from the store and the request to the response and
  the store afterwards. The store holds each collection as the list of its documents.
  What a handler takes from its environment is a parameter: the errors that the route's
  validators collected (\<open>validationResult\<close>), the current time (\<open>new Date()\<close>) and the
  identifier of a new document. Requests are handled one after the other, and the
  database itself does not fail.

  An ObjectId is modelled by its value. The handlers compare identifiers in two ways: as
  strings (\<open>a.toString() === b.toString()\<close>, or against the \<open>id\<close> getter of a
  Mongoose document, which is the hexadecimal string of \<open>_id\<close>), and with a string on
  one side and the ObjectId object \<open>req.user._id\<close> on the other. JavaScript's strict
  equality never identifies a primitive string with an object, so the model keeps the two
  kinds of value apart.
\<close>

type_synonym oid = nat

datatype jsval = ObjectId oid | HexString oid

fun toString :: "jsval \<Rightarrow> jsval" where
  "toString (ObjectId i) = HexString i"
| "toString (HexString i) = HexString i"

text \<open>\<open>a === b\<close>. Two strings are equal when their characters are; a string and an
  object are never equal; the ObjectId objects the handlers meet belong to different
  documents, hence are different objects.\<close>

fun strict_eq :: "jsval \<Rightarrow> jsval \<Rightarrow> bool" where
  "strict_eq (HexString a) (HexString b) = (a = b)"
| "strict_eq _ _ = False"

text \<open>Mongoose casts a 24-digit hexadecimal string stored into an ObjectId path.\<close>

fun castObjectId :: "jsval \<Rightarrow> oid" where
  "castObjectId (ObjectId i) = i"
| "castObjectId (HexString i) = i"

text \<open>\<open>String.prototype.trim\<close> on the ASCII white space characters.\<close>

definition is_white :: "char \<Rightarrow> bool" where
  "is_white c = (c \<in> set [CHR '' '', CHR 0x09, CHR 0x0A, CHR 0x0B, CHR 0x0C, CHR 0x0D])"

definition trim :: "string \<Rightarrow> string" where
  "trim s = rev (dropWhile is_white (rev (dropWhile is_white s)))"

subsection \<open>Documents\<close>

text \<open>
  The schemas of \<open>src/models\<close> (User, Gig, Order, Review, Conversation) and the Message
  schema of \<open>src/unnamed/part_004\<close>.
  Each schema is a record of the paths the modelled handlers read or write. Numbers are
  integers, dates are milliseconds. Field names carry the collection's initial because a
  record field is a global constant.
\<close>

record user =
  u_id :: oid
  u_name :: string
  u_email :: string
  u_password :: string
  u_role :: string
  u_profilePicture :: string
  u_totalEarnings :: int
  u_totalOrders :: int
  u_isActive :: bool
  u_isSuspended :: bool

record image =
  url :: string
  filename :: string
  isPrimary :: bool

record gig =
  g_id :: oid
  g_seller :: oid
  g_status :: string
  images :: "image list"
  g_totalOrders :: int
  g_totalEarnings :: int

record order_message =
  om_sender :: oid
  om_content :: string
  om_timestamp :: nat

record order =
  o_id :: oid
  o_gig :: oid
  o_buyer :: oid
  o_seller :: oid
  o_amount :: int
  o_status :: string
  o_requirements :: "string list"
  o_completedDate :: "nat option"
  o_messages :: "order_message list"

record review =
  r_id :: oid
  r_order :: oid
  r_gig :: oid
  r_reviewer :: oid
  r_reviewee :: oid
  r_rating :: int
  r_comment :: string
  r_status :: string

record conversation =
  c_id :: oid
  participants :: "oid list"
  lastMessage :: "oid option"
  lastMessageAt :: "nat option"
  unreadCount :: "oid \<rightharpoonup> nat"
  c_order :: "oid option"
  c_gig :: "oid option"
  c_status :: string

record message =
  m_id :: oid
  m_conversation :: oid
  m_sender :: oid
  m_content :: string
  m_messageType :: string
  m_read :: bool
  m_readAt :: "nat option"

record db =
  users :: "user list"
  gigs :: "gig list"
  orders :: "order list"
  reviews :: "review list"
  conversations :: "conversation list"
  messages :: "message list"

text \<open>\<open>Model.findById\<close>, and \<open>doc.save()\<close> of a document that was loaded from the
  collection (the stored document with the same \<open>_id\<close> is replaced).\<close>

definition findById :: "('a \<Rightarrow> oid) \<Rightarrow> 'a list \<Rightarrow> oid \<Rightarrow> 'a option" where
  "findById idf coll i = find (\<lambda>doc. idf doc = i) coll"

definition save :: "('a \<Rightarrow> oid) \<Rightarrow> 'a \<Rightarrow> 'a list \<Rightarrow> 'a list" where
  "save idf doc coll = map (\<lambda>old. if idf old = idf doc then doc else old) coll"

subsection \<open>Requests and responses\<close>

text \<open>
  \<open>req.user\<close> as the controllers read it: \<open>_id\<close>, the \<open>id\<close> getter and
  \<open>role\<close>. The middleware \<open>protect\<close> attaches the Mongoose document of the user, whose
  \<open>_id\<close> is an ObjectId.
\<close>

record req_user =
  ru_id :: jsval
  ru_role :: string

definition ru_id_getter :: "req_user \<Rightarrow> jsval" where
  "ru_id_getter usr = toString (ru_id usr)"

definition attach :: "user \<Rightarrow> req_user" where
  "attach u = \<lparr>ru_id = ObjectId (u_id u), ru_role = u_role u\<rparr>"

text \<open>
  The token library is outside the repository. A token is modelled by what it carries:
  the payload \<open>{id, role}\<close>, the expiry in seconds, and the secret it was signed with.
\<close>

type_synonym token = "oid \<times> string \<times> nat \<times> string"

text \<open>Response bodies: \<open>{success: false, message}\<close>, \<open>{message}\<close>, \<open>{errors}\<close>,
  \<open>{success: true, message}\<close>, \<open>{success: true, data}\<close> for each kind of document,
  the body of a successful login, and \<open>{msg: 'Server error', error}\<close> with the message of
  the error that \<open>login\<close> caught.\<close>

datatype payload =
    Failure string
  | Message string
  | Errors "string list"
  | Success string
  | OrderData order
  | ReviewData review
  | ConversationData conversation
  | MessageData message
  | LoginData oid string string string string token
  | ServerFailure string

type_synonym response = "nat \<times> payload"

section \<open>Orders\<close>

text \<open>The order handlers \<open>createOrder\<close>, \<open>updateOrderStatus\<close> and \<open>completeOrder\<close> of
  \<open>src/controllers/gigSimpleController.js\<close>.\<close>

definition order_statuses :: "string list" where
  "order_statuses =
     [''pending'', ''accepted'', ''in_progress'', ''delivered'', ''completed'',
      ''cancelled'', ''disputed'']"

text \<open>Schema validation run by \<open>save\<close>: \<open>amount\<close> has \<open>min: 5\<close>, \<open>status\<close> its enum.
  A failed validation throws, and every handler answers a thrown error with 500.\<close>

definition order_valid :: "order \<Rightarrow> bool" where
  "order_valid ord = (5 \<le> o_amount ord \<and> o_status ord \<in> set order_statuses)"

definition server_error :: response where
  "server_error = (500, Failure ''Server error'')"

definition createOrder ::
  "db \<Rightarrow> string list \<Rightarrow> req_user \<Rightarrow> oid \<Rightarrow> string list \<Rightarrow> int \<Rightarrow> oid \<Rightarrow> response \<times> db" where
  "createOrder d errs usr gigId reqs amount new_id =
     (if errs \<noteq> [] then ((400, Errors errs), d)
      else case findById g_id (gigs d) gigId of
        None \<Rightarrow> ((404, Failure ''Gig not found''), d)
      | Some gig \<Rightarrow>
          if g_status gig \<noteq> ''active''
          then ((400, Failure ''Gig is not available for orders''), d)
          else if strict_eq (toString (ObjectId (g_seller gig))) (toString (ru_id usr))
          then ((400, Failure ''You cannot order your own gig''), d)
          else
            let ord = \<lparr>o_id = new_id, o_gig = gigId, o_buyer = castObjectId (ru_id usr),
                       o_seller = g_seller gig, o_amount = amount, o_status = ''pending'',
                       o_requirements = reqs, o_completedDate = None, o_messages = []\<rparr>
            in if \<not> order_valid ord then (server_error, d)
               else ((201, OrderData ord), d\<lparr>orders := orders d @ [ord]\<rparr>))"

definition push_message :: "string option \<Rightarrow> req_user \<Rightarrow> nat \<Rightarrow> order \<Rightarrow> order" where
  "push_message msg usr now ord =
     (case msg of
        None \<Rightarrow> ord
      | Some m \<Rightarrow>
          if m \<noteq> [] \<and> trim m \<noteq> [] \<and> 0 < length (trim m)
          then ord\<lparr>o_messages := o_messages ord @
                 [\<lparr>om_sender = castObjectId (ru_id usr), om_content = trim m,
                   om_timestamp = now\<rparr>]\<rparr>
          else ord)"

definition updateOrderStatus ::
  "db \<Rightarrow> string list \<Rightarrow> req_user \<Rightarrow> oid \<Rightarrow> string \<Rightarrow> string option \<Rightarrow> nat \<Rightarrow> response \<times> db" where
  "updateOrderStatus d errs usr i status msg now =
     (if errs \<noteq> [] then ((400, Errors errs), d)
      else case findById o_id (orders d) i of
        None \<Rightarrow> ((404, Failure ''Order not found''), d)
      | Some ord \<Rightarrow>
          if ru_role usr \<noteq> ''admin''
             \<and> \<not> strict_eq (toString (ObjectId (o_buyer ord))) (toString (ru_id usr))
             \<and> \<not> strict_eq (toString (ObjectId (o_seller ord))) (toString (ru_id usr))
          then ((403, Failure ''Not authorized to update this order''), d)
          else
            let ord1 = push_message msg usr now ord;
                ord2 = ord1\<lparr>o_status := status\<rparr>;
                ord3 = (if status = ''completed''
                        then ord2\<lparr>o_completedDate := Some now\<rparr> else ord2)
            in if status \<notin> set order_statuses then (server_error, d)
               else ((200, OrderData ord3), d\<lparr>orders := save o_id ord3 (orders d)\<rparr>))"

text \<open>
  \<open>completeOrder\<close> saves the seller, then the gig, then the order. A seller or gig that
  is no longer stored makes the property access throw; what was saved before stays saved.
\<close>

definition completeOrder :: "db \<Rightarrow> req_user \<Rightarrow> oid \<Rightarrow> nat \<Rightarrow> response \<times> db" where
  "completeOrder d usr i now =
     (case findById o_id (orders d) i of
        None \<Rightarrow> ((404, Failure ''Order not found''), d)
      | Some ord \<Rightarrow>
          if \<not> strict_eq (toString (ObjectId (o_buyer ord))) (ru_id usr)
          then ((403, Failure ''Not authorized to complete this order''), d)
          else if o_status ord \<noteq> ''delivered''
          then ((400, Failure ''Order must be delivered before completion''), d)
          else
            let ord' = ord\<lparr>o_status := ''completed'', o_completedDate := Some now\<rparr>
            in (case findById u_id (users d) (o_seller ord) of
                 None \<Rightarrow> (server_error, d)
               | Some seller \<Rightarrow>
                   let seller' = seller\<lparr>u_totalOrders := u_totalOrders seller + 1,
                                        u_totalEarnings := u_totalEarnings seller + o_amount ord\<rparr>;
                       d1 = d\<lparr>users := save u_id seller' (users d)\<rparr>
                   in (case findById g_id (gigs d1) (o_gig ord) of
                        None \<Rightarrow> (server_error, d1)
                      | Some gig \<Rightarrow>
                          let gig' = gig\<lparr>g_totalOrders := g_totalOrders gig + 1,
                                         g_totalEarnings := g_totalEarnings gig + o_amount ord\<rparr>;
                              d2 = d1\<lparr>gigs := save g_id gig' (gigs d1)\<rparr>
                          in ((200, OrderData ord'), d2\<lparr>orders := save o_id ord' (orders d2)\<rparr>))))"

subsection \<open>The routes in front of the order handlers\<close>

text \<open>
  The order routes of \<open>src/unnamed/part_001\<close>.
  \<open>authorizeRoles(...roles)\<close> answers 403 unless the caller's role is listed. The route
  \<open>PATCH /:id/status\<close> runs the validator \<open>body('status').isIn([...])\<close> first; the
  controller reads its errors through \<open>validationResult\<close>.
\<close>

fun join :: "string list \<Rightarrow> string" where
  "join [] = []"
| "join [r] = r"
| "join (r # rs) = r @ '', '' @ join rs"

definition role_denied :: "string \<Rightarrow> string list \<Rightarrow> response" where
  "role_denied role roles =
     (403, Failure (''User role '' @ [CHR 0x27] @ role @ [CHR 0x27]
        @ '' is not authorized to access this resource. Required roles: '' @ join roles))"

definition status_route_values :: "string list" where
  "status_route_values =
     [''pending'', ''accepted'', ''in_progress'', ''delivered'', ''completed'', ''cancelled'']"

definition status_route_errors :: "string \<Rightarrow> string list" where
  "status_route_errors status =
     (if status \<in> set status_route_values then [] else [''Invalid status''])"

definition patch_status_route ::
  "db \<Rightarrow> req_user \<Rightarrow> oid \<Rightarrow> string \<Rightarrow> string option \<Rightarrow> nat \<Rightarrow> response \<times> db" where
  "patch_status_route d usr i status msg now =
     (if ru_role usr \<notin> set [''freelancer'', ''client'', ''admin'']
      then (role_denied (ru_role usr) [''freelancer'', ''client'', ''admin''], d)
      else updateOrderStatus d (status_route_errors status) usr i status msg now)"

definition patch_complete_route :: "db \<Rightarrow> req_user \<Rightarrow> oid \<Rightarrow> nat \<Rightarrow> response \<times> db" where
  "patch_complete_route d usr i now =
     (if ru_role usr \<notin> set [''client'']
      then (role_denied (ru_role usr) [''client''], d)
      else completeOrder d usr i now)"

definition order_status :: "db \<Rightarrow> oid \<Rightarrow> string option" where
  "order_status d i = map_option o_status (findById o_id (orders d) i)"

section \<open>Reviews\<close>

text \<open>\<open>createReview\<close> of \<open>src/unnamed/part_005\<close>. Schema validation of a new review: \<open>rating\<close> between 1 and 5, \<open>comment\<close>
  required and at most 1000 characters.\<close>

definition review_valid :: "review \<Rightarrow> bool" where
  "review_valid r =
     (1 \<le> r_rating r \<and> r_rating r \<le> 5 \<and> r_comment r \<noteq> [] \<and> length (r_comment r) \<le> 1000)"

definition new_review :: "req_user \<Rightarrow> order \<Rightarrow> oid \<Rightarrow> int \<Rightarrow> string \<Rightarrow> oid \<Rightarrow> review" where
  "new_review usr ord orderId rating comment new_id =
     \<lparr>r_id = new_id, r_order = orderId, r_gig = o_gig ord,
      r_reviewer = castObjectId (ru_id_getter usr), r_reviewee = o_seller ord,
      r_rating = rating, r_comment = comment, r_status = ''pending''\<rparr>"

definition createReview ::
  "db \<Rightarrow> string list \<Rightarrow> req_user \<Rightarrow> oid \<Rightarrow> int \<Rightarrow> string \<Rightarrow> oid \<Rightarrow> response \<times> db" where
  "createReview d errs usr orderId rating comment new_id =
     (if errs \<noteq> [] then ((400, Errors errs), d)
      else case findById o_id (orders d) orderId of
        None \<Rightarrow> ((404, Failure ''Order not found''), d)
      | Some ord \<Rightarrow>
          if \<not> strict_eq (toString (ObjectId (o_buyer ord))) (ru_id_getter usr)
          then ((403, Failure ''Not authorized to review this order''), d)
          else if o_status ord \<noteq> ''completed''
          then ((400, Failure ''Order must be completed before reviewing''), d)
          else (case find (\<lambda>r. r_order r = orderId) (reviews d) of
                  Some existingReview \<Rightarrow>
                    ((400, Failure ''Review already exists for this order''), d)
                | None \<Rightarrow>
                    let rev = new_review usr ord orderId rating comment new_id
                    in if \<not> review_valid rev then (server_error, d)
                       else ((201, ReviewData rev), d\<lparr>reviews := reviews d @ [rev]\<rparr>)))"

text \<open>No order has two reviews.\<close>

definition no_review_twice :: "db \<Rightarrow> bool" where
  "no_review_twice d = distinct (map r_order (reviews d))"

section \<open>Login and the \<open>protect\<close> middleware\<close>

text \<open>
  \<open>generateToken\<close> and \<open>login\<close> of \<open>src/controllers/authController.js\<close>, \<open>protect\<close> of
  \<open>src/unnamed/part_002\<close>.
  \<open>jwt.sign\<close> with \<open>expiresIn: '1d'\<close>, and \<open>jwt.verify\<close>, which accepts a token signed
  with the same secret that has not expired. Times are seconds here.
\<close>

definition jwt_sign :: "oid \<Rightarrow> string \<Rightarrow> string \<Rightarrow> nat \<Rightarrow> token" where
  "jwt_sign uid role secret now = (uid, role, now + 86400, secret)"

definition jwt_verify :: "token \<Rightarrow> string \<Rightarrow> nat \<Rightarrow> (oid \<times> string) option" where
  "jwt_verify tok secret now =
     (case tok of (uid, role, exp, key) \<Rightarrow>
        if key = secret \<and> now < exp then Some (uid, role) else None)"

definition generateToken :: "user \<Rightarrow> string \<Rightarrow> nat \<Rightarrow> token" where
  "generateToken u secret now = jwt_sign (u_id u) (u_role u) secret now"

text \<open>
  The login route has no validators, so the handler meets whatever the body holds. The
  email is a string here. The password is a string or a value of another type, given by
  what \<open>typeof\<close> says of it (\<open>undefined\<close> for a missing field).
\<close>

datatype body_field = Text string | Other string

text \<open>
  \<open>User.findOne({ email })\<close>: the filter is cast by the schema, whose \<open>email\<close> path has
  \<open>lowercase: true\<close> and \<open>trim: true\<close>, and is then compared with the stored emails.
  Letters are lowered on ASCII.
\<close>

definition lower_char :: "char \<Rightarrow> char" where
  "lower_char c =
     (case map_of (zip ''ABCDEFGHIJKLMNOPQRSTUVWXYZ'' ''abcdefghijklmnopqrstuvwxyz'') c of
        None \<Rightarrow> c
      | Some l \<Rightarrow> l)"

definition toLowerCase :: "string \<Rightarrow> string" where
  "toLowerCase s = map lower_char s"

definition email_filter :: "string \<Rightarrow> string" where
  "email_filter email = toLowerCase (trim email)"

text \<open>
  \<open>bcrypt.compare(password, user.password)\<close> on two strings is a parameter of \<open>login\<close>.
  On a password that is not a string it rejects with the error
  \<open>Illegal arguments: <typeof password>, string\<close>, which the handler's \<open>catch\<close> answers
  with 500. The comparison is reached only when a user was found.
\<close>

definition login ::
  "(string \<Rightarrow> string \<Rightarrow> bool) \<Rightarrow> string \<Rightarrow> nat \<Rightarrow> db \<Rightarrow> string \<Rightarrow> body_field \<Rightarrow> response" where
  "login compare secret now d email password =
     (case find (\<lambda>u. u_email u = email_filter email) (users d) of
        None \<Rightarrow> (400, Message ''Invalid credentials'')
      | Some u \<Rightarrow>
          (case password of
             Other type \<Rightarrow>
               (500, ServerFailure (''Illegal arguments: '' @ type @ '', string''))
           | Text pw \<Rightarrow>
               if \<not> compare pw (u_password u)
               then (400, Message ''Invalid credentials'')
               else (200, LoginData (u_id u) (u_name u) (u_email u) (u_role u)
                       (u_profilePicture u) (generateToken u secret now))))"

definition protect :: "string \<Rightarrow> nat \<Rightarrow> db \<Rightarrow> token option \<Rightarrow> response + req_user" where
  "protect secret now d tok =
     (case tok of
        None \<Rightarrow> Inl (401, Failure ''No token, authorization denied'')
      | Some t \<Rightarrow>
          (case jwt_verify t secret now of
             None \<Rightarrow> Inl (401, Failure ''Token is not valid'')
           | Some (uid, role) \<Rightarrow>
               (case findById u_id (users d) uid of
                  None \<Rightarrow> Inl (401, Failure ''User not found'')
                | Some u \<Rightarrow>
                    if \<not> u_isActive u then Inl (401, Failure ''Account is deactivated'')
                    else if u_isSuspended u then Inl (401, Failure ''Account is suspended'')
                    else if u_role u \<notin> set [''freelancer'', ''client'', ''admin'']
                    then Inl (401, Failure ''Invalid user role'')
                    else Inr (attach u))))"

text \<open>The token a response of \<open>login\<close> carries, if any.\<close>

fun issued_token :: "response \<Rightarrow> token option" where
  "issued_token (code, LoginData uid name email role picture t) = Some t"
| "issued_token other = None"

section \<open>Conversations with per-participant unread counters\<close>

text \<open>\<open>createConversation\<close>, \<open>sendMessage\<close> and \<open>markAsRead\<close> of
  \<open>src/controllers/messageController.js\<close>. The participants of a conversation are a
  Mongoose array, whose \<open>includes\<close> finds an identifier given as a string.
  \<open>unreadCount.get(k) || 0\<close>: a missing entry and a zero both read as 0. The
  counters are only ever written as 0 or as a successor, and are natural numbers here.\<close>

definition get_count :: "(oid \<rightharpoonup> nat) \<Rightarrow> oid \<Rightarrow> nat" where
  "get_count counts k = (case counts k of None \<Rightarrow> 0 | Some n \<Rightarrow> n)"

definition unread_of :: "conversation \<Rightarrow> oid \<Rightarrow> nat" where
  "unread_of conv p = get_count (unreadCount conv) p"

text \<open>The query \<open>{participants: {$all: [a, b]}, status: {$ne: 'blocked'}}\<close>.\<close>

definition matches_pair :: "oid \<Rightarrow> oid \<Rightarrow> conversation \<Rightarrow> bool" where
  "matches_pair a b c =
     (a \<in> set (participants c) \<and> b \<in> set (participants c) \<and> c_status c \<noteq> ''blocked'')"

definition fresh_conversation ::
  "req_user \<Rightarrow> oid \<Rightarrow> oid option \<Rightarrow> oid option \<Rightarrow> oid \<Rightarrow> conversation" where
  "fresh_conversation usr participantId orderId gigId new_id =
     \<lparr>c_id = new_id, participants = [castObjectId (ru_id_getter usr), participantId],
      lastMessage = None, lastMessageAt = None, unreadCount = Map.empty,
      c_order = orderId, c_gig = gigId, c_status = ''active''\<rparr>"

definition createConversation ::
  "db \<Rightarrow> string list \<Rightarrow> req_user \<Rightarrow> oid \<Rightarrow> oid option \<Rightarrow> oid option \<Rightarrow> oid \<Rightarrow> response \<times> db" where
  "createConversation d errs usr participantId orderId gigId new_id =
     (if errs \<noteq> [] then ((400, Errors errs), d)
      else case findById u_id (users d) participantId of
        None \<Rightarrow> ((404, Failure ''Participant not found''), d)
      | Some participant \<Rightarrow>
          (case find (matches_pair (castObjectId (ru_id_getter usr)) participantId)
                  (conversations d) of
             Some existingConversation \<Rightarrow> ((200, ConversationData existingConversation), d)
           | None \<Rightarrow>
               let conv = fresh_conversation usr participantId orderId gigId new_id
               in ((201, ConversationData conv),
                   d\<lparr>conversations := conversations d @ [conv]\<rparr>)))"

text \<open>The \<open>forEach\<close> over the participants in \<open>sendMessage\<close>.\<close>

fun bump_unread :: "jsval \<Rightarrow> oid list \<Rightarrow> (oid \<rightharpoonup> nat) \<Rightarrow> (oid \<rightharpoonup> nat)" where
  "bump_unread me [] counts = counts"
| "bump_unread me (p # ps) counts =
     bump_unread me ps
       (if \<not> strict_eq (toString (ObjectId p)) me
        then counts(p \<mapsto> get_count counts p + 1)
        else counts)"

definition message_valid :: "message \<Rightarrow> bool" where
  "message_valid m =
     (m_content m \<noteq> [] \<and> length (m_content m) \<le> 2000
      \<and> m_messageType m \<in> set [''text'', ''image'', ''file'', ''order_update''])"

definition sendMessage ::
  "db \<Rightarrow> string list \<Rightarrow> req_user \<Rightarrow> oid \<Rightarrow> string \<Rightarrow> string \<Rightarrow> oid \<Rightarrow> nat \<Rightarrow> response \<times> db" where
  "sendMessage d errs usr conversationId content messageType new_id now =
     (if errs \<noteq> [] then ((400, Errors errs), d)
      else case findById c_id (conversations d) conversationId of
        None \<Rightarrow> ((404, Failure ''Conversation not found''), d)
      | Some conv \<Rightarrow>
          if castObjectId (ru_id_getter usr) \<notin> set (participants conv)
          then ((403, Failure ''Not authorized to send messages in this conversation''), d)
          else if c_status conv = ''blocked''
          then ((403, Failure ''Conversation is blocked''), d)
          else
            let msg = \<lparr>m_id = new_id, m_conversation = conversationId,
                       m_sender = castObjectId (ru_id_getter usr), m_content = content,
                       m_messageType = messageType, m_read = False, m_readAt = None\<rparr>
            in if \<not> message_valid msg then (server_error, d)
               else
                 let d1 = d\<lparr>messages := messages d @ [msg]\<rparr>;
                     conv1 = conv\<lparr>lastMessage := Some new_id, lastMessageAt := Some now\<rparr>;
                     conv2 = conv1\<lparr>unreadCount :=
                               bump_unread (ru_id_getter usr) (participants conv1)
                                 (unreadCount conv1)\<rparr>
                 in ((201, MessageData msg),
                     d1\<lparr>conversations := save c_id conv2 (conversations d1)\<rparr>))"

definition mark_read :: "oid \<Rightarrow> oid \<Rightarrow> nat \<Rightarrow> message \<Rightarrow> message" where
  "mark_read conversationId me now m =
     (if m_conversation m = conversationId \<and> m_sender m \<noteq> me \<and> m_read m = False
      then m\<lparr>m_read := True, m_readAt := Some now\<rparr> else m)"

definition markAsRead :: "db \<Rightarrow> req_user \<Rightarrow> oid \<Rightarrow> nat \<Rightarrow> response \<times> db" where
  "markAsRead d usr conversationId now =
     (case findById c_id (conversations d) conversationId of
        None \<Rightarrow> ((404, Failure ''Conversation not found''), d)
      | Some conv \<Rightarrow>
          if castObjectId (ru_id_getter usr) \<notin> set (participants conv)
          then ((403, Failure ''Not authorized to access this conversation''), d)
          else
            let d1 = d\<lparr>messages :=
                       map (mark_read conversationId (castObjectId (ru_id_getter usr)) now)
                         (messages d)\<rparr>;
                conv' = conv\<lparr>unreadCount :=
                          (unreadCount conv)(castObjectId (toString (ru_id_getter usr)) \<mapsto> 0)\<rparr>
            in ((200, Success ''Messages marked as read''),
                d1\<lparr>conversations := save c_id conv' (conversations d1)\<rparr>))"

text \<open>The unread counter a participant reads for a stored conversation
  (\<open>getConversations\<close>), and the requests of the conversation API as one datatype.\<close>

definition unread_in :: "db \<Rightarrow> oid \<Rightarrow> oid \<Rightarrow> nat" where
  "unread_in d cid p =
     (case findById c_id (conversations d) cid of None \<Rightarrow> 0 | Some conv \<Rightarrow> unread_of conv p)"

datatype conv_request =
    CreateConversation "string list" req_user oid "oid option" "oid option" oid
  | SendMessage "string list" req_user oid string string oid nat
  | MarkAsRead req_user oid nat

fun handle :: "db \<Rightarrow> conv_request \<Rightarrow> response \<times> db" where
  "handle d (CreateConversation errs usr participantId orderId gigId new_id) =
     createConversation d errs usr participantId orderId gigId new_id"
| "handle d (SendMessage errs usr conversationId content messageType new_id now) =
     sendMessage d errs usr conversationId content messageType new_id now"
| "handle d (MarkAsRead usr conversationId now) = markAsRead d usr conversationId now"

section \<open>The order-thread message routes\<close>

text \<open>
  The routes \<open>POST /\<close> and \<open>GET /\<close> of \<open>src/unnamed/part_008\<close>, on the schemas of
  \<open>src/src/models/Conversation.ts\<close>; \<open>req.user.id\<close> is a parameter.
  The second message stack keeps one conversation per order, with a single number
  \<open>unreadCount\<close>, and a \<open>readBy\<close> list on each message. Messages are stored in the
  order of their creation; the schema's unique index allows one conversation per order.
\<close>

record thread =
  t_order :: oid
  t_participants :: "oid list"
  t_lastMessage :: "oid option"
  t_unreadCount :: int
  t_updatedAt :: nat

record thread_message =
  tm_id :: oid
  tm_content :: string
  tm_sender :: oid
  tm_order :: oid
  tm_attachments :: "string list"
  tm_readBy :: "oid list"

record thread_db =
  threads :: "thread list"
  thread_messages :: "thread_message list"

datatype thread_payload =
    TMessage string
  | TCreated thread_message
  | TPage "thread_message list" bool

fun addToSet :: "oid list \<Rightarrow> oid list \<Rightarrow> oid list" where
  "addToSet xs [] = xs"
| "addToSet xs (y # ys) = addToSet (if y \<in> set xs then xs else xs @ [y]) ys"

text \<open>\<open>POST /\<close>: the message is saved, then \<open>findOneAndUpdate\<close> with \<open>upsert\<close> sets
  the last message, adds sender and recipient to the participants and increments
  \<open>unreadCount\<close>.\<close>

definition post_message ::
  "thread_db \<Rightarrow> oid \<Rightarrow> string \<Rightarrow> string list \<Rightarrow> oid \<Rightarrow> oid \<Rightarrow> oid \<Rightarrow> nat
     \<Rightarrow> (nat \<times> thread_payload) \<times> thread_db" where
  "post_message t senderId content files orderId recipientId new_id now =
     (if content = [] \<and> files = []
      then ((400, TMessage ''Message content or attachment is required''), t)
      else
        let msg = \<lparr>tm_id = new_id, tm_content = content, tm_sender = senderId,
                   tm_order = orderId, tm_attachments = files, tm_readBy = [senderId]\<rparr>;
            t1 = t\<lparr>thread_messages := thread_messages t @ [msg]\<rparr>;
            upd = (\<lambda>c. c\<lparr>t_lastMessage := Some new_id, t_updatedAt := now,
                         t_participants := addToSet (t_participants c) [senderId, recipientId],
                         t_unreadCount := t_unreadCount c + 1\<rparr>)
        in (case find (\<lambda>c. t_order c = orderId) (threads t1) of
              Some c \<Rightarrow>
                ((201, TCreated msg),
                 t1\<lparr>threads := map (\<lambda>c. if t_order c = orderId then upd c else c) (threads t1)\<rparr>)
            | None \<Rightarrow>
                ((201, TCreated msg),
                 t1\<lparr>threads := threads t1 @
                    [upd \<lparr>t_order = orderId, t_participants = [], t_lastMessage = None,
                          t_unreadCount = 0, t_updatedAt = now\<rparr>]\<rparr>)))"

text \<open>
  \<open>GET /\<close>: a page of the order's messages, newest first, fetched with one extra
  message; the messages of the page that come from another sender are marked read and
  \<open>unreadCount\<close> is decremented by their number. \<open>Array.prototype.includes\<close>
  compares like \<open>===\<close>; the test \<open>msg.readBy.includes(new Types.ObjectId(req.user.id))\<close>
  looks for a newly made object in the array of the ObjectIds that were read from the
  store.
\<close>

definition array_includes :: "jsval list \<Rightarrow> jsval \<Rightarrow> bool" where
  "array_includes arr v = list_ex (\<lambda>x. strict_eq x v) arr"

definition get_messages ::
  "thread_db \<Rightarrow> oid \<Rightarrow> oid \<Rightarrow> nat \<Rightarrow> nat \<Rightarrow> (nat \<times> thread_payload) \<times> thread_db" where
  "get_messages t me orderId page limit =
     (if page = 0 \<and> 0 < limit then ((500, TMessage ''Error fetching messages''), t)
      else
        let found = take (limit + 1) (drop ((page - 1) * limit)
                      (rev (filter (\<lambda>m. tm_order m = orderId) (thread_messages t))));
            hasMore = (limit < length found);
            msgs = (if hasMore then butlast found else found);
            unreadMessageIds =
              map tm_id
                (filter (\<lambda>m. \<not> array_includes (map ObjectId (tm_readBy m)) (ObjectId me)
                              \<and> tm_sender m \<noteq> me) msgs)
        in if unreadMessageIds \<noteq> []
           then ((200, TPage (rev msgs) hasMore),
                 t\<lparr>thread_messages :=
                      map (\<lambda>m. if tm_id m \<in> set unreadMessageIds
                                then m\<lparr>tm_readBy := addToSet (tm_readBy m) [me]\<rparr> else m)
                        (thread_messages t),
                    threads :=
                      map (\<lambda>c. if t_order c = orderId
                                then c\<lparr>t_unreadCount :=
                                       t_unreadCount c - int (length unreadMessageIds)\<rparr>
                                else c) (threads t)\<rparr>)
           else ((200, TPage (rev msgs) hasMore), t))"

definition thread_unread :: "thread_db \<Rightarrow> oid \<Rightarrow> int option" where
  "thread_unread t orderId = map_option t_unreadCount (find (\<lambda>c. t_order c = orderId) (threads t))"

section \<open>Gig images\<close>

text \<open>The methods \<open>addImage\<close>, \<open>setPrimaryImage\<close> and \<open>removeImage\<close> of the gig
  schema (\<open>src/models/Gig.js\<close>), on the gig document. \<open>images\<close> is an array path
  and always holds an array, so of the two errors the methods throw only the second is
  met. The index is an integer.\<close>

datatype image_error = NoImagesAvailable | InvalidImageIndex

definition addImage :: "gig \<Rightarrow> image \<Rightarrow> gig" where
  "addImage g imageData =
     g\<lparr>images := images g @
         [if length (images g) = 0 then imageData\<lparr>isPrimary := True\<rparr> else imageData]\<rparr>"

definition setPrimaryImage :: "gig \<Rightarrow> int \<Rightarrow> image_error + gig" where
  "setPrimaryImage g imageIndex =
     (if 0 \<le> imageIndex \<and> imageIndex < int (length (images g))
      then Inr (g\<lparr>images :=
                  map (\<lambda>(index, img). img\<lparr>isPrimary := (int index = imageIndex)\<rparr>)
                    (enumerate 0 (images g))\<rparr>)
      else Inl InvalidImageIndex)"

definition removeImage :: "gig \<Rightarrow> int \<Rightarrow> image_error + gig" where
  "removeImage g imageIndex =
     (if 0 \<le> imageIndex \<and> imageIndex < int (length (images g))
      then
        let removedImage = images g ! nat imageIndex;
            rest = take (nat imageIndex) (images g) @ drop (Suc (nat imageIndex)) (images g)
        in Inr (g\<lparr>images :=
                  (if isPrimary removedImage \<and> 0 < length rest
                   then (hd rest)\<lparr>isPrimary := True\<rparr> # tl rest
                   else rest)\<rparr>)
      else Inl InvalidImageIndex)"

datatype image_op = AddImage image | SetPrimaryImage int | RemoveImage int

text \<open>One operation on a gig; an operation that throws leaves the gig as it was.\<close>

fun image_step :: "gig \<Rightarrow> image_op \<Rightarrow> gig" where
  "image_step g (AddImage imageData) = addImage g imageData"
| "image_step g (SetPrimaryImage i) = (case setPrimaryImage g i of Inl e \<Rightarrow> g | Inr g' \<Rightarrow> g')"
| "image_step g (RemoveImage i) = (case removeImage g i of Inl e \<Rightarrow> g | Inr g' \<Rightarrow> g')"

definition primaries :: "gig \<Rightarrow> nat" where
  "primaries g = length (filter isPrimary (images g))"

fun adds_plain :: "image_op \<Rightarrow> bool" where
  "adds_plain (AddImage imageData) = (\<not> isPrimary imageData)"
| "adds_plain other = True"

section \<open>A small marketplace\<close>

text \<open>Sample documents: a client, a freelancer, an administrator and a suspended
  client; an active gig and a draft; orders in several states.\<close>

definition bea :: user where
  "bea = \<lparr>u_id = 1, u_name = ''Bea'', u_email = ''bea@example.com'', u_password = ''#tulip'',
           u_role = ''client'', u_profilePicture = [], u_totalEarnings = 0,
           u_totalOrders = 0, u_isActive = True, u_isSuspended = False\<rparr>"

definition sol :: user where
  "sol = \<lparr>u_id = 2, u_name = ''Sol'', u_email = ''sol@example.com'', u_password = ''#maple'',
           u_role = ''freelancer'', u_profilePicture = [], u_totalEarnings = 120,
           u_totalOrders = 3, u_isActive = True, u_isSuspended = False\<rparr>"

definition ada :: user where
  "ada = \<lparr>u_id = 3, u_name = ''Ada'', u_email = ''ada@example.com'', u_password = ''#cedar'',
           u_role = ''admin'', u_profilePicture = [], u_totalEarnings = 0,
           u_totalOrders = 0, u_isActive = True, u_isSuspended = False\<rparr>"

definition kim :: user where
  "kim = \<lparr>u_id = 4, u_name = ''Kim'', u_email = ''kim@example.com'', u_password = ''#lotus'',
           u_role = ''client'', u_profilePicture = [], u_totalEarnings = 0,
           u_totalOrders = 0, u_isActive = True, u_isSuspended = True\<rparr>"

definition logo_gig :: gig where
  "logo_gig = \<lparr>g_id = 10, g_seller = 2, g_status = ''active'', images = [],
                g_totalOrders = 3, g_totalEarnings = 120\<rparr>"

definition draft_gig :: gig where
  "draft_gig = \<lparr>g_id = 11, g_seller = 2, g_status = ''draft'', images = [],
                 g_totalOrders = 0, g_totalEarnings = 0\<rparr>"

definition order_in :: "oid \<Rightarrow> string \<Rightarrow> order" where
  "order_in i status =
     \<lparr>o_id = i, o_gig = 10, o_buyer = 1, o_seller = 2, o_amount = 50, o_status = status,
      o_requirements = [''a logo''], o_completedDate = None, o_messages = []\<rparr>"

definition market :: db where
  "market = \<lparr>users = [bea, sol, ada, kim], gigs = [logo_gig, draft_gig],
              orders = [order_in 100 ''pending'', order_in 101 ''delivered'',
                        order_in 102 ''completed''],
              reviews = [], conversations = [], messages = []\<rparr>"

text \<open>A caller whose \<open>_id\<close> is the string of a user's identifier, next to the
  document that \<open>protect\<close> attaches.\<close>

definition with_string_id :: "user \<Rightarrow> req_user" where
  "with_string_id u = \<lparr>ru_id = HexString (u_id u), ru_role = u_role u\<rparr>"

definition bea_review :: review where
  "bea_review = \<lparr>r_id = 200, r_order = 102, r_gig = 10, r_reviewer = 1, r_reviewee = 2,
                  r_rating = 5, r_comment = ''Great'', r_status = ''pending''\<rparr>"

text \<open>A conversation between Bea and Sol in which Sol has three unread messages, one
  message of each, and a conversation that lists Sol twice.\<close>

definition talk :: conversation where
  "talk = \<lparr>c_id = 300, participants = [1, 2], lastMessage = None, lastMessageAt = None,
            unreadCount = [2 \<mapsto> 3, 1 \<mapsto> 1], c_order = None, c_gig = Some 10,
            c_status = ''active''\<rparr>"

definition echo :: conversation where
  "echo = \<lparr>c_id = 301, participants = [1, 2, 2], lastMessage = None, lastMessageAt = None,
            unreadCount = Map.empty, c_order = None, c_gig = None, c_status = ''active''\<rparr>"

definition note_of :: "oid \<Rightarrow> oid \<Rightarrow> message" where
  "note_of i sender =
     \<lparr>m_id = i, m_conversation = 300, m_sender = sender, m_content = ''hello'',
      m_messageType = ''text'', m_read = False, m_readAt = None\<rparr>"

definition chat :: db where
  "chat = market\<lparr>conversations := [talk, echo], messages := [note_of 400 1, note_of 401 2]\<rparr>"

text \<open>An order thread of the second stack with two messages of Sol and the counter 2.\<close>

definition line_of :: "oid \<Rightarrow> thread_message" where
  "line_of i = \<lparr>tm_id = i, tm_content = ''progress'', tm_sender = 2, tm_order = 100,
                 tm_attachments = [], tm_readBy = [2]\<rparr>"

definition desk :: thread_db where
  "desk = \<lparr>threads = [\<lparr>t_order = 100, t_participants = [2, 1], t_lastMessage = Some 501,
                         t_unreadCount = 2, t_updatedAt = 3\<rparr>],
            thread_messages = [line_of 500, line_of 501]\<rparr>"

text \<open>Uploaded images as \<open>processUploadedFiles\<close> builds them, and one flagged primary
  by its caller.\<close>

definition pic :: "string \<Rightarrow> bool \<Rightarrow> image" where
  "pic name primary = \<lparr>url = ''/uploads/'' @ name, filename = name, isPrimary = primary\<rparr>"

text \<open>A password check for the sample users, standing for \<open>bcrypt.compare\<close>.\<close>

definition sample_compare :: "string \<Rightarrow> string \<Rightarrow> bool" where
  "sample_compare password hash = (hash = CHR ''#'' # password)"

section \<open>Lemmas on the store and on identifier comparison\<close>

lemma findById_save_same:
  "findById idf coll i = Some old \<Longrightarrow> idf doc = i \<Longrightarrow> findById idf (save idf doc coll) i = Some doc"
  unfolding findById_def save_def by (induction coll) (auto split: if_splits)

lemma findById_save_other:
  "idf doc \<noteq> i \<Longrightarrow> findById idf (save idf doc coll) i = findById idf coll i"
  unfolding findById_def save_def by (induction coll) auto

lemma findById_Some_id: "findById idf coll i = Some doc \<Longrightarrow> idf doc = i"
  unfolding findById_def by (induction coll) (auto split: if_splits)

lemma toString_hex: "toString x = HexString (castObjectId x)"
  by (cases x) auto

lemma strict_eq_strings [simp]:
  "strict_eq (HexString a) (toString x) = (a = castObjectId x)"
  by (cases x) auto

lemma castObjectId_toString [simp]: "castObjectId (toString x) = castObjectId x"
  by (cases x) auto

lemma castObjectId_getter [simp]: "castObjectId (ru_id_getter usr) = castObjectId (ru_id usr)"
  by (simp add: ru_id_getter_def)

lemma strict_eq_attached [simp]: "strict_eq (HexString a) (ru_id (attach u)) = False"
  by (simp add: attach_def)

lemma o_id_push_message [simp]: "o_id (push_message msg usr now ord) = o_id ord"
  by (simp add: push_message_def split: option.splits)

lemma find_append:
  "find P (xs @ ys) = (case find P xs of None \<Rightarrow> find P ys | Some x \<Rightarrow> Some x)"
  by (induction xs) auto

lemma find_Some_holds: "find P xs = Some x \<Longrightarrow> P x \<and> x \<in> set xs"
  by (induction xs) (auto split: if_splits)

lemma filter_empty_of_find: "find P xs = None \<Longrightarrow> filter P xs = []"
  by (induction xs) (auto split: if_splits)

lemmas ex_defs = market_def bea_def sol_def ada_def kim_def logo_gig_def draft_gig_def
  order_in_def with_string_id_def attach_def Let_def

lemmas chat_defs = chat_def market_def talk_def echo_def note_of_def attach_def bea_def sol_def
  ada_def kim_def Let_def

lemma talk_found: "findById c_id (conversations chat) 300 = Some talk"
  by (simp add: chat_def findById_def talk_def)

lemma sol_found: "findById u_id (users chat) 2 = Some sol"
  by (simp add: chat_def market_def findById_def bea_def sol_def)

section \<open>Order lifecycle\<close>

lemma status_route_accepts:
  assumes "findById o_id (orders d) i = Some ord"
      and "v \<in> set status_route_values"
      and "ru_role usr \<in> set [''freelancer'', ''client'', ''admin'']"
      and "ru_role usr = ''admin'' \<or> castObjectId (ru_id usr) = o_buyer ord
           \<or> castObjectId (ru_id usr) = o_seller ord"
  shows "fst (fst (patch_status_route d usr i v msg now)) = 200
       \<and> order_status (snd (patch_status_route d usr i v msg now)) i = Some v"
proof -
  have id: "o_id ord = i" using assms(1) by (rule findById_Some_id)
  have v: "v \<in> set order_statuses"
    using assms(2) by (auto simp: status_route_values_def order_statuses_def)
  show ?thesis
    using assms v id
    by (auto simp: patch_status_route_def updateOrderStatus_def status_route_errors_def
        order_status_def Let_def findById_save_same)
qed

lemma status_route_refuses:
  assumes "v \<notin> set status_route_values"
      and "ru_role usr \<in> set [''freelancer'', ''client'', ''admin'']"
  shows "patch_status_route d usr i v msg now = ((400, Errors [''Invalid status'']), d)"
  using assms
  by (simp add: patch_status_route_def updateOrderStatus_def status_route_errors_def)

text \<open>
  Claim C1 (as amended). Through the dedicated complete endpoint an order reaches
  \<open>completed\<close> only from \<open>delivered\<close>: a complete request on a stored order whose
  status is not \<open>delivered\<close> is rejected and leaves the store unchanged (403 from the
  role or caller check, and 400 once these pass), and if the request turns the status
  into \<open>completed\<close> the status before was \<open>delivered\<close>. The generic status-update
  endpoint is not bound by this: an authorized caller sets \<open>completed\<close> with it
  whatever the status was.
\<close>

theorem complete_route_only_from_delivered:
  assumes "findById o_id (orders d) i = Some ord"
  shows "(o_status ord \<noteq> ''delivered'' \<longrightarrow>
            snd (patch_complete_route d usr i now) = d
          \<and> fst (patch_complete_route d usr i now) =
              (if ru_role usr \<noteq> ''client'' then role_denied (ru_role usr) [''client'']
               else if strict_eq (toString (ObjectId (o_buyer ord))) (ru_id usr)
               then (400, Failure ''Order must be delivered before completion'')
               else (403, Failure ''Not authorized to complete this order'')))
       \<and> (order_status (snd (patch_complete_route d usr i now)) i = Some ''completed''
            \<and> o_status ord \<noteq> ''completed'' \<longrightarrow> o_status ord = ''delivered'')
       \<and> (ru_role usr \<in> set [''freelancer'', ''client'', ''admin'']
            \<and> (ru_role usr = ''admin'' \<or> castObjectId (ru_id usr) = o_buyer ord
                 \<or> castObjectId (ru_id usr) = o_seller ord)
            \<longrightarrow> fst (fst (patch_status_route d usr i ''completed'' msg now)) = 200
              \<and> order_status (snd (patch_status_route d usr i ''completed'' msg now)) i
                   = Some ''completed'')"
proof (intro conjI impI)
  assume "o_status ord \<noteq> ''delivered''"
  with assms show "snd (patch_complete_route d usr i now) = d"
    by (simp add: patch_complete_route_def completeOrder_def)
  from assms \<open>o_status ord \<noteq> ''delivered''\<close>
  show "fst (patch_complete_route d usr i now) =
              (if ru_role usr \<noteq> ''client'' then role_denied (ru_role usr) [''client'']
               else if strict_eq (toString (ObjectId (o_buyer ord))) (ru_id usr)
               then (400, Failure ''Order must be delivered before completion'')
               else (403, Failure ''Not authorized to complete this order''))"
    by (simp add: patch_complete_route_def completeOrder_def)
next
  assume "order_status (snd (patch_complete_route d usr i now)) i = Some ''completed''
            \<and> o_status ord \<noteq> ''completed''"
  with assms show "o_status ord = ''delivered''"
    by (simp add: patch_complete_route_def completeOrder_def order_status_def Let_def
        split: option.splits if_splits)
next
  assume who: "ru_role usr \<in> set [''freelancer'', ''client'', ''admin'']
            \<and> (ru_role usr = ''admin'' \<or> castObjectId (ru_id usr) = o_buyer ord
                 \<or> castObjectId (ru_id usr) = o_seller ord)"
  have "''completed'' \<in> set status_route_values" by (simp add: status_route_values_def)
  from status_route_accepts [OF assms this, of usr msg now] who
  show "fst (fst (patch_status_route d usr i ''completed'' msg now)) = 200"
    "order_status (snd (patch_status_route d usr i ''completed'' msg now)) i = Some ''completed''"
    by simp_all
qed

theorem complete_route_only_from_delivered_witness:
  "findById o_id (orders market) 100 = Some (order_in 100 ''pending'')
   \<and> patch_complete_route market (with_string_id bea) 100 7
       = ((400, Failure ''Order must be delivered before completion''), market)
   \<and> fst (fst (patch_complete_route market (with_string_id bea) 101 7)) = 200
   \<and> order_status market 101 = Some ''delivered''
   \<and> order_status (snd (patch_complete_route market (with_string_id bea) 101 7)) 101 = Some ''completed''"
  using complete_route_only_from_delivered [of market 100 "order_in 100 ''pending''" "with_string_id bea" 7]
        complete_route_only_from_delivered [of market 101 "order_in 101 ''delivered''" "with_string_id bea" 7]
  by (simp add: ex_defs findById_def patch_complete_route_def completeOrder_def order_status_def save_def)

text \<open>The generic status-update endpoint completes an order that is still pending.\<close>

theorem status_route_completes_pending_order:
  "order_status market 100 = Some ''pending''
   \<and> fst (fst (patch_status_route market (attach bea) 100 ''completed'' None 7)) = 200
   \<and> order_status (snd (patch_status_route market (attach bea) 100 ''completed'' None 7)) 100
       = Some ''completed''"
  by (simp add: ex_defs findById_def patch_status_route_def updateOrderStatus_def order_status_def save_def
      status_route_errors_def status_route_values_def order_statuses_def push_message_def)

text \<open>
  Claim C2. A complete request of the order's buyer on a delivered order should succeed
  and update the statistics once. With \<open>req.user\<close> as \<open>protect\<close> attaches it, the
  caller check compares the buyer's identifier string with the ObjectId \<open>req.user._id\<close>,
  which is never equal: every complete request on a stored order is answered 403 and
  nothing is written.
\<close>

theorem completeOrder_rejects_protected_buyer:
  assumes "findById o_id (orders d) i = Some ord"
  shows "completeOrder d (attach u) i now
           = ((403, Failure ''Not authorized to complete this order''), d)"
  using assms by (simp add: completeOrder_def)

theorem completeOrder_rejects_protected_buyer_witness:
  "protect ''s3cret'' 5 market (Some (generateToken bea ''s3cret'' 0)) = Inr (attach bea)
   \<and> findById o_id (orders market) 101 = Some (order_in 101 ''delivered'')
   \<and> o_buyer (order_in 101 ''delivered'') = u_id bea
   \<and> patch_complete_route market (attach bea) 101 7
        = ((403, Failure ''Not authorized to complete this order''), market)"
  using completeOrder_rejects_protected_buyer [of market 101 "order_in 101 ''delivered''" bea 7]
  by (simp add: ex_defs findById_def patch_complete_route_def protect_def generateToken_def jwt_sign_def jwt_verify_def)

text \<open>What the handler does when the caller check passes (a caller whose \<open>_id\<close> is a
  string): the order is completed, seller and gig are credited once, and a repeated
  request is rejected.\<close>

lemma completeOrder_effects:
  assumes "findById o_id (orders d) i = Some ord"
      and "strict_eq (toString (ObjectId (o_buyer ord))) (ru_id usr)"
      and "o_status ord = ''delivered''"
      and "findById u_id (users d) (o_seller ord) = Some seller"
      and "findById g_id (gigs d) (o_gig ord) = Some gig"
      and "completeOrder d usr i now = (res, d')"
  shows "res = (200, OrderData (ord\<lparr>o_status := ''completed'', o_completedDate := Some now\<rparr>))"
    and "findById o_id (orders d') i = Some (ord\<lparr>o_status := ''completed'', o_completedDate := Some now\<rparr>)"
    and "findById u_id (users d') (o_seller ord) =
           Some (seller\<lparr>u_totalOrders := u_totalOrders seller + 1,
                        u_totalEarnings := u_totalEarnings seller + o_amount ord\<rparr>)"
    and "findById g_id (gigs d') (o_gig ord) =
           Some (gig\<lparr>g_totalOrders := g_totalOrders gig + 1,
                     g_totalEarnings := g_totalEarnings gig + o_amount ord\<rparr>)"
    and "completeOrder d' usr i later = ((400, Failure ''Order must be delivered before completion''), d')"
proof -
  have id: "o_id ord = i" "u_id seller = o_seller ord" "g_id gig = o_gig ord"
    using assms findById_Some_id by fastforce+
  show "res = (200, OrderData (ord\<lparr>o_status := ''completed'', o_completedDate := Some now\<rparr>))"
    using assms by (auto simp: completeOrder_def Let_def)
  have d': "d' = d\<lparr>users := save u_id (seller\<lparr>u_totalOrders := u_totalOrders seller + 1,
                        u_totalEarnings := u_totalEarnings seller + o_amount ord\<rparr>) (users d),
                    gigs := save g_id (gig\<lparr>g_totalOrders := g_totalOrders gig + 1,
                     g_totalEarnings := g_totalEarnings gig + o_amount ord\<rparr>) (gigs d),
                    orders := save o_id (ord\<lparr>o_status := ''completed'', o_completedDate := Some now\<rparr>) (orders d)\<rparr>"
    using assms by (auto simp: completeOrder_def Let_def)
  show o: "findById o_id (orders d') i = Some (ord\<lparr>o_status := ''completed'', o_completedDate := Some now\<rparr>)"
    using assms(1) id by (simp add: d' findById_save_same)
  show "findById u_id (users d') (o_seller ord) =
           Some (seller\<lparr>u_totalOrders := u_totalOrders seller + 1,
                        u_totalEarnings := u_totalEarnings seller + o_amount ord\<rparr>)"
    using assms(4) id by (simp add: d' findById_save_same)
  show "findById g_id (gigs d') (o_gig ord) =
           Some (gig\<lparr>g_totalOrders := g_totalOrders gig + 1,
                     g_totalEarnings := g_totalEarnings gig + o_amount ord\<rparr>)"
    using assms(5) id by (simp add: d' findById_save_same)
  show "completeOrder d' usr i later = ((400, Failure ''Order must be delivered before completion''), d')"
    using o assms(2) by (simp add: completeOrder_def)
qed

text \<open>
  Claim C3 (as amended). For every value \<open>v\<close> that the route's validator lists
  (\<open>pending\<close>, \<open>accepted\<close>, \<open>in_progress\<close>, \<open>delivered\<close>, \<open>completed\<close>,
  \<open>cancelled\<close>) and every stored order, a caller who is the buyer, the seller or an
  administrator sets the status to \<open>v\<close> through the generic status-update endpoint: the
  answer is 200 and the stored status is \<open>v\<close>, whatever it was before. The value
  \<open>disputed\<close> is answered 400 and nothing is written.
\<close>

theorem status_route_sets_listed_status:
  assumes "findById o_id (orders d) i = Some ord"
      and "ru_role usr \<in> set [''freelancer'', ''client'', ''admin'']"
      and "ru_role usr = ''admin'' \<or> castObjectId (ru_id usr) = o_buyer ord
           \<or> castObjectId (ru_id usr) = o_seller ord"
  shows "(\<forall>v \<in> set status_route_values.
            fst (fst (patch_status_route d usr i v msg now)) = 200
          \<and> order_status (snd (patch_status_route d usr i v msg now)) i = Some v)
       \<and> patch_status_route d usr i ''disputed'' msg now = ((400, Errors [''Invalid status'']), d)"
  using status_route_accepts [OF assms(1) _ assms(2,3)] status_route_refuses [OF _ assms(2)]
  by (simp add: status_route_values_def)

theorem status_route_sets_listed_status_witness:
  "findById o_id (orders market) 102 = Some (order_in 102 ''completed'')
   \<and> ''pending'' \<in> set status_route_values
   \<and> castObjectId (ru_id (attach sol)) = o_seller (order_in 102 ''completed'')
   \<and> fst (fst (patch_status_route market (attach sol) 102 ''pending'' None 7)) = 200
   \<and> order_status (snd (patch_status_route market (attach sol) 102 ''pending'' None 7)) 102
        = Some ''pending''"
proof -
  have found: "findById o_id (orders market) 102 = Some (order_in 102 ''completed'')"
    by (simp add: ex_defs findById_def)
  have who: "ru_role (attach sol) \<in> set [''freelancer'', ''client'', ''admin'']"
    "castObjectId (ru_id (attach sol)) = o_seller (order_in 102 ''completed'')"
    by (simp_all add: ex_defs)
  have listed: "''pending'' \<in> set status_route_values" by (simp add: status_route_values_def)
  from status_route_sets_listed_status [OF found who(1), of None 7] who(2) listed
  have "fst (fst (patch_status_route market (attach sol) 102 ''pending'' None 7)) = 200
      \<and> order_status (snd (patch_status_route market (attach sol) 102 ''pending'' None 7)) 102
           = Some ''pending''"
    by blast
  with found who(2) listed show ?thesis by simp
qed

text \<open>The enum value \<open>disputed\<close> is not among the values the route accepts.\<close>

theorem status_route_rejects_disputed:
  "''disputed'' \<in> set order_statuses
   \<and> patch_status_route market (attach ada) 100 ''disputed'' None 7
        = ((400, Errors [''Invalid status'']), market)
   \<and> order_status market 100 = Some ''pending''"
  by (simp add: ex_defs findById_def patch_status_route_def updateOrderStatus_def order_status_def
      status_route_errors_def status_route_values_def order_statuses_def)

text \<open>
  Claim C9. Order creation succeeds only for a stored, active gig that the caller does
  not sell. For a request that passed the route's validators, a missing gig is answered
  404, an inactive gig or the caller's own gig 400; a rejected request leaves the store
  unchanged; a successful one appends an order with status \<open>pending\<close>, the caller as
  buyer and the gig's seller as seller.
\<close>

theorem createOrder_outcomes:
  assumes "createOrder d errs usr gigId reqs amount new_id = (res, d')"
  shows "(fst res = 201 \<longrightarrow>
            (\<exists>gig ord. findById g_id (gigs d) gigId = Some gig \<and> g_status gig = ''active''
               \<and> g_seller gig \<noteq> castObjectId (ru_id usr)
               \<and> res = (201, OrderData ord) \<and> d' = d\<lparr>orders := orders d @ [ord]\<rparr>
               \<and> o_id ord = new_id \<and> o_gig ord = gigId \<and> o_status ord = ''pending''
               \<and> o_buyer ord = castObjectId (ru_id usr) \<and> o_seller ord = g_seller gig))
       \<and> (fst res \<noteq> 201 \<longrightarrow> d' = d)
       \<and> (errs = [] \<and> findById g_id (gigs d) gigId = None
            \<longrightarrow> res = (404, Failure ''Gig not found''))
       \<and> (\<forall>gig. errs = [] \<and> findById g_id (gigs d) gigId = Some gig \<longrightarrow>
             (g_status gig \<noteq> ''active''
                \<longrightarrow> res = (400, Failure ''Gig is not available for orders''))
           \<and> (g_status gig = ''active'' \<and> g_seller gig = castObjectId (ru_id usr)
                \<longrightarrow> res = (400, Failure ''You cannot order your own gig''))
           \<and> (g_status gig = ''active'' \<and> g_seller gig \<noteq> castObjectId (ru_id usr)
                \<and> 5 \<le> amount \<longrightarrow> fst res = 201))"
  using assms
  by (auto simp: createOrder_def Let_def order_valid_def order_statuses_def server_error_def
      split: if_splits option.splits)

theorem createOrder_outcomes_witness:
  "fst (fst (createOrder market [] (attach bea) 10 [''a logo''] 50 103)) = 201
   \<and> orders (snd (createOrder market [] (attach bea) 10 [''a logo''] 50 103))
       = orders market @
         [\<lparr>o_id = 103, o_gig = 10, o_buyer = 1, o_seller = 2, o_amount = 50,
           o_status = ''pending'', o_requirements = [''a logo''], o_completedDate = None,
           o_messages = []\<rparr>]
   \<and> createOrder market [] (attach bea) 99 [''a logo''] 50 103
       = ((404, Failure ''Gig not found''), market)
   \<and> createOrder market [] (attach bea) 11 [''a logo''] 50 103
       = ((400, Failure ''Gig is not available for orders''), market)
   \<and> createOrder market [] (attach sol) 10 [''a logo''] 50 103
       = ((400, Failure ''You cannot order your own gig''), market)"
  using createOrder_outcomes [of market "[]" "attach bea" 10 "[''a logo'']" 50 103
          "fst (createOrder market [] (attach bea) 10 [''a logo''] 50 103)"
          "snd (createOrder market [] (attach bea) 10 [''a logo''] 50 103)"]
  by (simp add: ex_defs createOrder_def findById_def order_valid_def order_statuses_def)

section \<open>Reviews\<close>

lemma createReview_found:
  assumes "findById o_id (orders d) orderId = Some ord"
  shows "createReview d [] usr orderId rating comment new_id =
     (if o_buyer ord \<noteq> castObjectId (ru_id usr)
      then ((403, Failure ''Not authorized to review this order''), d)
      else if o_status ord \<noteq> ''completed''
      then ((400, Failure ''Order must be completed before reviewing''), d)
      else if find (\<lambda>r. r_order r = orderId) (reviews d) \<noteq> None
      then ((400, Failure ''Review already exists for this order''), d)
      else if \<not> review_valid (new_review usr ord orderId rating comment new_id)
      then (server_error, d)
      else ((201, ReviewData (new_review usr ord orderId rating comment new_id)),
            d\<lparr>reviews := reviews d @ [new_review usr ord orderId rating comment new_id]\<rparr>))"
  using assms
  by (simp add: createReview_def ru_id_getter_def new_review_def Let_def split: option.splits)

lemma createReview_created:
  assumes "createReview d errs usr orderId rating comment new_id = (res, d')"
      and "fst res = 201"
  shows "\<exists>ord. errs = [] \<and> findById o_id (orders d) orderId = Some ord
           \<and> o_buyer ord = castObjectId (ru_id usr) \<and> o_status ord = ''completed''
           \<and> find (\<lambda>r. r_order r = orderId) (reviews d) = None
           \<and> res = (201, ReviewData (new_review usr ord orderId rating comment new_id))
           \<and> d' = d\<lparr>reviews := reviews d @ [new_review usr ord orderId rating comment new_id]\<rparr>"
proof (cases "errs = []")
  case False
  with assms show ?thesis by (auto simp add: createReview_def)
next
  case True
  show ?thesis
  proof (cases "findById o_id (orders d) orderId")
    case None
    with True assms show ?thesis by (auto simp add: createReview_def)
  next
    case (Some ord)
    with True assms show ?thesis
      by (auto simp add: createReview_found server_error_def split: if_splits)
  qed
qed

lemma createReview_rejected:
  assumes "createReview d errs usr orderId rating comment new_id = (res, d')"
      and "fst res \<noteq> 201"
  shows "d' = d"
proof (cases "errs = []")
  case False
  with assms show ?thesis by (auto simp add: createReview_def)
next
  case True
  show ?thesis
  proof (cases "findById o_id (orders d) orderId")
    case None
    with True assms show ?thesis by (auto simp add: createReview_def)
  next
    case (Some ord)
    with True assms show ?thesis
      by (auto simp add: createReview_found server_error_def split: if_splits)
  qed
qed

lemma createReview_repeat:
  assumes "findById o_id (orders d) orderId = Some ord"
      and "o_buyer ord = castObjectId (ru_id usr)" and "o_status ord = ''completed''"
      and "d' = d\<lparr>reviews := reviews d @ [new_review usr ord orderId rating comment new_id]\<rparr>"
  shows "createReview d' [] usr orderId rating' comment' new_id'
           = ((400, Failure ''Review already exists for this order''), d')"
proof -
  have "findById o_id (orders d') orderId = Some ord" using assms by simp
  moreover have "r_order (new_review usr ord orderId rating comment new_id) = orderId"
    by (simp add: new_review_def)
  then have "find (\<lambda>r. r_order r = orderId) (reviews d') \<noteq> None"
    unfolding assms(4) find_None_iff by auto
  ultimately show ?thesis using assms(2,3) by (simp add: createReview_found)
qed

lemma createReview_unique:
  assumes "createReview d errs usr orderId rating comment new_id = (res, d')"
      and "no_review_twice d"
  shows "no_review_twice d'"
proof (cases "fst res = 201")
  case False
  with assms createReview_rejected show ?thesis by blast
next
  case True
  from createReview_created [OF assms(1) True] assms(2) show ?thesis
    by (auto simp: no_review_twice_def find_None_iff new_review_def)
qed

text \<open>
  Claim C6. A review is created only when the caller is the order's buyer, the order is
  completed and no review of the order is stored. For a request that passed the route's
  validators on a stored order: another caller is answered 403, the buyer of an order
  that is not completed 400, and a request for an order that has a review 400, which is
  what a second request after a successful one meets. A rejected request leaves the store
  unchanged, so no order ever has two reviews.
\<close>

theorem createReview_outcomes:
  assumes "createReview d errs usr orderId rating comment new_id = (res, d')"
  shows "(fst res = 201 \<longrightarrow>
            (\<exists>ord rev. findById o_id (orders d) orderId = Some ord
               \<and> o_buyer ord = castObjectId (ru_id usr) \<and> o_status ord = ''completed''
               \<and> find (\<lambda>r. r_order r = orderId) (reviews d) = None
               \<and> res = (201, ReviewData rev) \<and> d' = d\<lparr>reviews := reviews d @ [rev]\<rparr>
               \<and> r_order rev = orderId \<and> r_reviewer rev = o_buyer ord
               \<and> r_reviewee rev = o_seller ord)
            \<and> createReview d' [] usr orderId rating' comment' new_id'
                 = ((400, Failure ''Review already exists for this order''), d'))
       \<and> (fst res \<noteq> 201 \<longrightarrow> d' = d)
       \<and> (\<forall>ord. errs = [] \<and> findById o_id (orders d) orderId = Some ord \<longrightarrow>
             (o_buyer ord \<noteq> castObjectId (ru_id usr)
                \<longrightarrow> res = (403, Failure ''Not authorized to review this order''))
           \<and> (o_buyer ord = castObjectId (ru_id usr) \<and> o_status ord \<noteq> ''completed''
                \<longrightarrow> res = (400, Failure ''Order must be completed before reviewing''))
           \<and> (o_buyer ord = castObjectId (ru_id usr) \<and> o_status ord = ''completed''
                \<and> find (\<lambda>r. r_order r = orderId) (reviews d) \<noteq> None
                \<longrightarrow> res = (400, Failure ''Review already exists for this order''))
           \<and> (o_buyer ord = castObjectId (ru_id usr) \<and> o_status ord = ''completed''
                \<and> find (\<lambda>r. r_order r = orderId) (reviews d) = None
                \<and> 1 \<le> rating \<and> rating \<le> 5 \<and> comment \<noteq> [] \<and> length comment \<le> 1000
                \<longrightarrow> fst res = 201))
       \<and> (no_review_twice d \<longrightarrow> no_review_twice d')"
proof (intro conjI impI allI)
  assume ok: "fst res = 201"
  from createReview_created [OF assms ok] obtain ord where
    o: "findById o_id (orders d) orderId = Some ord" "o_buyer ord = castObjectId (ru_id usr)"
       "o_status ord = ''completed''" "find (\<lambda>r. r_order r = orderId) (reviews d) = None"
       "res = (201, ReviewData (new_review usr ord orderId rating comment new_id))"
       "d' = d\<lparr>reviews := reviews d @ [new_review usr ord orderId rating comment new_id]\<rparr>"
    by blast
  have "r_order (new_review usr ord orderId rating comment new_id) = orderId"
       "r_reviewer (new_review usr ord orderId rating comment new_id) = o_buyer ord"
       "r_reviewee (new_review usr ord orderId rating comment new_id) = o_seller ord"
    using o(2) by (simp_all add: new_review_def)
  with o show "\<exists>ord rev. findById o_id (orders d) orderId = Some ord
               \<and> o_buyer ord = castObjectId (ru_id usr) \<and> o_status ord = ''completed''
               \<and> find (\<lambda>r. r_order r = orderId) (reviews d) = None
               \<and> res = (201, ReviewData rev) \<and> d' = d\<lparr>reviews := reviews d @ [rev]\<rparr>
               \<and> r_order rev = orderId \<and> r_reviewer rev = o_buyer ord
               \<and> r_reviewee rev = o_seller ord"
    by blast
  show "createReview d' [] usr orderId rating' comment' new_id'
                 = ((400, Failure ''Review already exists for this order''), d')"
    by (rule createReview_repeat [OF o(1) o(2) o(3) o(6)])
next
  assume "fst res \<noteq> 201"
  with assms show "d' = d" by (rule createReview_rejected)
next
  assume "no_review_twice d"
  with assms show "no_review_twice d'" by (rule createReview_unique)
next
  fix ord
  assume h: "errs = [] \<and> findById o_id (orders d) orderId = Some ord"
  then have eq: "createReview d [] usr orderId rating comment new_id = (res, d')"
    using assms by simp
  from h have f: "findById o_id (orders d) orderId = Some ord" by simp
  { assume "o_buyer ord \<noteq> castObjectId (ru_id usr)"
    with eq show "res = (403, Failure ''Not authorized to review this order'')"
      by (simp add: createReview_found [OF f]) }
  { assume "o_buyer ord = castObjectId (ru_id usr) \<and> o_status ord \<noteq> ''completed''"
    with eq show "res = (400, Failure ''Order must be completed before reviewing'')"
      by (simp add: createReview_found [OF f]) }
  { assume "o_buyer ord = castObjectId (ru_id usr) \<and> o_status ord = ''completed''
                \<and> find (\<lambda>r. r_order r = orderId) (reviews d) \<noteq> None"
    with eq show "res = (400, Failure ''Review already exists for this order'')"
      by (auto simp add: createReview_found [OF f]) }
  { assume "o_buyer ord = castObjectId (ru_id usr) \<and> o_status ord = ''completed''
                \<and> find (\<lambda>r. r_order r = orderId) (reviews d) = None
                \<and> 1 \<le> rating \<and> rating \<le> 5 \<and> comment \<noteq> [] \<and> length comment \<le> 1000"
    with eq show "fst res = 201"
      by (auto simp add: createReview_found [OF f] review_valid_def new_review_def) }
qed

lemma order_102_found: "findById o_id (orders market) 102 = Some (order_in 102 ''completed'')"
  by (simp add: market_def findById_def order_in_def)

lemma order_101_found:
  "findById o_id (orders market) 101 = Some (order_in 101 ''delivered'')"
  by (simp add: market_def findById_def order_in_def)

lemma first_review: "createReview market [] (attach bea) 102 5 ''Great'' 200
      = ((201, ReviewData bea_review), market\<lparr>reviews := [bea_review]\<rparr>)"
  by (subst createReview_found [OF order_102_found])
     (simp add: new_review_def review_valid_def bea_review_def order_in_def attach_def bea_def
        market_def)

theorem createReview_outcomes_witness:
  "createReview market [] (attach bea) 102 5 ''Great'' 200
      = ((201, ReviewData bea_review), market\<lparr>reviews := [bea_review]\<rparr>)
   \<and> createReview (market\<lparr>reviews := [bea_review]\<rparr>) [] (attach bea) 102 4 ''Again'' 201
      = ((400, Failure ''Review already exists for this order''), market\<lparr>reviews := [bea_review]\<rparr>)
   \<and> createReview market [] (attach kim) 102 5 ''Great'' 200
      = ((403, Failure ''Not authorized to review this order''), market)
   \<and> createReview market [] (attach bea) 101 5 ''Great'' 200
      = ((400, Failure ''Order must be completed before reviewing''), market)
   \<and> no_review_twice market
   \<and> no_review_twice (market\<lparr>reviews := [bea_review]\<rparr>)"
proof -
  have other: "createReview market [] (attach kim) 102 5 ''Great'' 200
      = ((403, Failure ''Not authorized to review this order''), market)"
    by (subst createReview_found [OF order_102_found])
       (simp add: order_in_def attach_def kim_def)
  have early: "createReview market [] (attach bea) 101 5 ''Great'' 200
      = ((400, Failure ''Order must be completed before reviewing''), market)"
    by (subst createReview_found [OF order_101_found])
       (simp add: order_in_def attach_def bea_def)
  from createReview_outcomes [OF first_review, of 4 "''Again''" 201] first_review other early
  show ?thesis by (simp add: no_review_twice_def market_def bea_review_def)
qed

section \<open>Unread counters\<close>

lemma get_count_upd [simp]: "get_count (m(k \<mapsto> v)) p = (if p = k then v else get_count m p)"
  by (simp add: get_count_def)

lemma bump_unread_count:
  "get_count (bump_unread (HexString me) ps m) p
     = get_count m p + (if p = me then 0 else count_list ps p)"
  by (induction ps arbitrary: m) auto

lemma count_list_distinct: "distinct ps \<Longrightarrow> p \<in> set ps \<Longrightarrow> count_list ps p = 1"
  by (induction ps) (auto simp: count_list_0_iff)

lemma sendMessage_sent:
  assumes "sendMessage d errs usr cid content mtype new_id now = (res, d')"
      and "fst res = 201"
  shows "\<exists>conv. findById c_id (conversations d) cid = Some conv
           \<and> castObjectId (ru_id usr) \<in> set (participants conv)
           \<and> conversations d' =
               save c_id (conv\<lparr>lastMessage := Some new_id, lastMessageAt := Some now,
                              unreadCount := bump_unread (HexString (castObjectId (ru_id usr)))
                                (participants conv) (unreadCount conv)\<rparr>) (conversations d)"
  using assms
  by (auto simp: sendMessage_def ru_id_getter_def Let_def server_error_def toString_hex
      split: if_splits option.splits)

lemma unread_in_sent:
  assumes "sendMessage d errs usr cid content mtype new_id now = (res, d')"
      and "fst res = 201"
      and "findById c_id (conversations d) cid = Some conv"
  shows "unread_in d' cid p
           = unread_in d cid p
             + (if p = castObjectId (ru_id usr) then 0 else count_list (participants conv) p)"
proof -
  from sendMessage_sent [OF assms(1,2)] assms(3)
  have d': "conversations d' =
               save c_id (conv\<lparr>lastMessage := Some new_id, lastMessageAt := Some now,
                              unreadCount := bump_unread (HexString (castObjectId (ru_id usr)))
                                (participants conv) (unreadCount conv)\<rparr>) (conversations d)"
    by auto
  have id: "c_id conv = cid" using assms(3) by (rule findById_Some_id)
  show ?thesis
    unfolding unread_in_def d'
    by (simp add: findById_save_same [OF assms(3)] id assms(3) unread_of_def bump_unread_count)
qed

lemma unread_in_sent_other:
  assumes "sendMessage d errs usr cid0 content mtype new_id now = (res, d')"
      and "cid \<noteq> cid0"
  shows "unread_in d' cid p = unread_in d cid p"
proof (cases "fst res = 201")
  case True
  from sendMessage_sent [OF assms(1) True] obtain conv where
    c: "findById c_id (conversations d) cid0 = Some conv"
    and d': "conversations d' =
               save c_id (conv\<lparr>lastMessage := Some new_id, lastMessageAt := Some now,
                              unreadCount := bump_unread (HexString (castObjectId (ru_id usr)))
                                (participants conv) (unreadCount conv)\<rparr>) (conversations d)"
    by auto
  have "c_id conv = cid0" using c by (rule findById_Some_id)
  then show ?thesis
    unfolding unread_in_def d' using assms(2) by (simp add: findById_save_other)
next
  case False
  then have "d' = d" using assms(1)
    by (auto simp: sendMessage_def Let_def server_error_def split: if_splits option.splits)
  then show ?thesis by simp
qed

lemma find_map_update:
  assumes "\<And>c. key (f c) = key c"
  shows "find (\<lambda>c. key c = k) (map (\<lambda>c. if key c = k then f c else c) cs)
           = map_option f (find (\<lambda>c. key c = k) cs)"
  using assms by (induction cs) auto

lemma post_message_counts:
  assumes "content \<noteq> [] \<or> files \<noteq> []"
  shows "thread_unread (snd (post_message t senderId content files orderId recipientId new_id now)) orderId
           = Some (case thread_unread t orderId of None \<Rightarrow> 1 | Some n \<Rightarrow> n + 1)"
proof (cases "find (\<lambda>c. t_order c = orderId) (threads t)")
  case None
  with assms show ?thesis
    by (auto simp: post_message_def thread_unread_def Let_def find_append)
next
  case (Some c)
  with assms show ?thesis
    by (auto simp: post_message_def thread_unread_def Let_def find_map_update)
qed

text \<open>
  Claim C4 (as amended). In the conversation stack with per-participant counters, for
  every conversation whose participant list names nobody twice, a successful send by a
  participant makes the unread counter of every other participant exactly one greater
  and leaves the sender's counter unchanged. In the order-thread stack a thread has one
  counter, and every accepted post makes it one greater, whoever sends.
\<close>

theorem sendMessage_bumps_others:
  assumes "findById c_id (conversations d) cid = Some conv"
      and "distinct (participants conv)"
      and "sendMessage d errs usr cid content mtype new_id now = (res, d')"
      and "fst res = 201"
  shows "castObjectId (ru_id usr) \<in> set (participants conv)
       \<and> (\<forall>p \<in> set (participants conv). p \<noteq> castObjectId (ru_id usr)
             \<longrightarrow> unread_in d' cid p = unread_in d cid p + 1)
       \<and> unread_in d' cid (castObjectId (ru_id usr)) = unread_in d cid (castObjectId (ru_id usr))
       \<and> (\<forall>t senderId body files orderId recipientId mid at. body \<noteq> [] \<or> files \<noteq> [] \<longrightarrow>
             thread_unread (snd (post_message t senderId body files orderId recipientId mid at))
               orderId
               = Some (case thread_unread t orderId of None \<Rightarrow> 1 | Some n \<Rightarrow> n + 1))"
proof -
  from sendMessage_sent [OF assms(3,4)] assms(1)
  have "castObjectId (ru_id usr) \<in> set (participants conv)" by auto
  then show ?thesis
    using assms(2)
    by (simp add: unread_in_sent [OF assms(3,4,1)] count_list_distinct post_message_counts)
qed

theorem sendMessage_bumps_others_witness:
  "findById c_id (conversations chat) 300 = Some talk \<and> distinct (participants talk)
   \<and> fst (fst (sendMessage chat [] (attach bea) 300 ''hi'' ''text'' 402 9)) = 201
   \<and> unread_in chat 300 2 = 3
   \<and> unread_in (snd (sendMessage chat [] (attach bea) 300 ''hi'' ''text'' 402 9)) 300 2 = 4
   \<and> unread_in chat 300 1 = 1
   \<and> unread_in (snd (sendMessage chat [] (attach bea) 300 ''hi'' ''text'' 402 9)) 300 1 = 1
   \<and> thread_unread desk 100 = Some 2
   \<and> thread_unread (snd (post_message desk 2 ''done'' [] 100 1 502 9)) 100 = Some 3"
proof -
  have sent: "fst (fst (sendMessage chat [] (attach bea) 300 ''hi'' ''text'' 402 9)) = 201"
    by (simp add: sendMessage_def chat_defs findById_def ru_id_getter_def message_valid_def)
  have before: "unread_in chat 300 2 = 3" "unread_in chat 300 1 = 1"
    by (simp_all add: unread_in_def talk_found unread_of_def talk_def)
  have parts: "distinct (participants talk)" "2 \<in> set (participants talk)"
    "castObjectId (ru_id (attach bea)) = 1"
    by (simp_all add: talk_def attach_def bea_def)
  have thread: "thread_unread desk 100 = Some 2" by (simp add: thread_unread_def desk_def)
  note th = sendMessage_bumps_others [OF talk_found parts(1) surjective_pairing sent,
      unfolded parts(3)]
  from th parts(2) have "unread_in (snd (sendMessage chat [] (attach bea) 300 ''hi'' ''text'' 402 9)) 300 2
      = unread_in chat 300 2 + 1"
    by auto
  moreover from th have "unread_in (snd (sendMessage chat [] (attach bea) 300 ''hi'' ''text'' 402 9)) 300 1
      = unread_in chat 300 1"
    by simp
  moreover from th thread have "thread_unread (snd (post_message desk 2 ''done'' [] 100 1 502 9)) 100 = Some 3"
    by simp
  ultimately show ?thesis using talk_found sent before parts(1) thread by simp
qed

text \<open>The order thread's single counter grows with the sender's own message, and a
  participant listed twice is counted twice.\<close>

theorem counters_differ_counterexample:
  "thread_unread desk 100 = Some 2
   \<and> fst (fst (post_message desk 1 ''hi'' [] 100 2 502 9)) = 201
   \<and> thread_unread (snd (post_message desk 1 ''hi'' [] 100 2 502 9)) 100 = Some 3
   \<and> fst (fst (sendMessage chat [] (attach bea) 301 ''hi'' ''text'' 402 9)) = 201
   \<and> unread_in chat 301 2 = 0
   \<and> unread_in (snd (sendMessage chat [] (attach bea) 301 ''hi'' ''text'' 402 9)) 301 2 = 2"
  by (simp add: thread_unread_def desk_def post_message_def line_of_def Let_def
      sendMessage_def chat_defs findById_def ru_id_getter_def message_valid_def
      unread_in_def unread_of_def save_def get_count_def)

lemma markAsRead_done:
  assumes "findById c_id (conversations d) cid = Some conv"
      and "castObjectId (ru_id usr) \<in> set (participants conv)"
  shows "markAsRead d usr cid now =
           ((200, Success ''Messages marked as read''),
            d\<lparr>messages := map (mark_read cid (castObjectId (ru_id usr)) now) (messages d),
              conversations :=
                save c_id (conv\<lparr>unreadCount := (unreadCount conv)(castObjectId (ru_id usr) \<mapsto> 0)\<rparr>)
                  (conversations d)\<rparr>)"
  using assms by (simp add: markAsRead_def Let_def)

lemma markAsRead_refused:
  assumes "fst (fst (markAsRead d usr cid now)) \<noteq> 200"
  shows "snd (markAsRead d usr cid now) = d"
  using assms by (auto simp: markAsRead_def Let_def split: option.splits if_splits)

lemma markAsRead_accepted:
  assumes "fst (fst (markAsRead d usr cid now)) = 200"
  shows "\<exists>conv. findById c_id (conversations d) cid = Some conv
           \<and> castObjectId (ru_id usr) \<in> set (participants conv)"
  using assms by (auto simp: markAsRead_def Let_def split: option.splits if_splits)

lemma unread_in_marked:
  assumes "findById c_id (conversations d) cid = Some conv"
      and "castObjectId (ru_id usr) \<in> set (participants conv)"
  shows "unread_in (snd (markAsRead d usr cid now)) c p
           = (if c = cid \<and> p = castObjectId (ru_id usr) then 0 else unread_in d c p)"
proof -
  have id: "c_id conv = cid" using assms(1) by (rule findById_Some_id)
  show ?thesis
  proof (cases "c = cid")
    case True
    then show ?thesis
      by (simp add: markAsRead_done [OF assms] unread_in_def findById_save_same [OF assms(1)]
          id assms(1) unread_of_def)
  next
    case False
    then show ?thesis
      by (simp add: markAsRead_done [OF assms] unread_in_def findById_save_other id)
  qed
qed

lemma unread_in_marked_le:
  "unread_in (snd (markAsRead d usr cid now)) c p \<le> unread_in d c p"
proof (cases "fst (fst (markAsRead d usr cid now)) = 200")
  case True
  from markAsRead_accepted [OF True] obtain conv where
    "findById c_id (conversations d) cid = Some conv"
    "castObjectId (ru_id usr) \<in> set (participants conv)" by blast
  then show ?thesis by (simp add: unread_in_marked)
next
  case False
  then show ?thesis by (simp add: markAsRead_refused)
qed

lemma unread_in_created_le:
  "unread_in (snd (createConversation d errs usr participantId orderId gigId new_id)) c p
     \<le> unread_in d c p"
  by (auto simp: createConversation_def fresh_conversation_def Let_def unread_in_def
      findById_def find_append unread_of_def get_count_def split: option.splits)

lemma unread_grows_only_by_others:
  assumes "handle d rq = (res, d')" and "unread_in d c p < unread_in d' c p"
  shows "\<exists>errs usr content mtype new_id now.
           rq = SendMessage errs usr c content mtype new_id now
           \<and> castObjectId (ru_id usr) \<noteq> p \<and> fst res = 201"
proof (cases rq)
  case (CreateConversation errs usr participantId orderId gigId new_id)
  with assms(1) have "d' = snd (createConversation d errs usr participantId orderId gigId new_id)"
    by simp
  with assms(2) unread_in_created_le [of d errs usr participantId orderId gigId new_id c p]
  show ?thesis by simp
next
  case (MarkAsRead usr cid now)
  with assms(1) have "d' = snd (markAsRead d usr cid now)" by simp
  with assms(2) unread_in_marked_le [of d usr cid now c p] show ?thesis by simp
next
  case (SendMessage errs usr cid content mtype new_id now)
  with assms(1) have s: "sendMessage d errs usr cid content mtype new_id now = (res, d')"
    by simp
  have same: "cid = c"
    using unread_in_sent_other [OF s, of c p] assms(2) by auto
  have ok: "fst res = 201"
  proof (rule ccontr)
    assume "fst res \<noteq> 201"
    then have "d' = d" using s
      by (auto simp: sendMessage_def Let_def server_error_def split: if_splits option.splits)
    with assms(2) show False by simp
  qed
  from sendMessage_sent [OF s ok] obtain conv where
    c: "findById c_id (conversations d) cid = Some conv" by blast
  from unread_in_sent [OF s ok c, of p] assms(2) same
  have "castObjectId (ru_id usr) \<noteq> p" by (auto split: if_splits)
  with SendMessage same ok show ?thesis by simp
qed

text \<open>
  Claim C5 (as amended). In the conversation stack with per-participant counters: after
  a participant marks a stored conversation as read, the answer is 200, the participant's
  counter is 0, the counters of the others are unchanged, and exactly the messages of the
  conversation from another sender that were unread are marked read and stamped with the
  time of the request; and whenever a request of the conversation API makes a
  participant's counter greater, the request is a successful send by somebody else.
\<close>

theorem markAsRead_resets_reader:
  assumes "findById c_id (conversations d) cid = Some conv"
      and "castObjectId (ru_id usr) \<in> set (participants conv)"
  shows "fst (markAsRead d usr cid now) = (200, Success ''Messages marked as read'')
       \<and> unread_in (snd (markAsRead d usr cid now)) cid (castObjectId (ru_id usr)) = 0
       \<and> (\<forall>q. q \<noteq> castObjectId (ru_id usr)
             \<longrightarrow> unread_in (snd (markAsRead d usr cid now)) cid q = unread_in d cid q)
       \<and> length (messages (snd (markAsRead d usr cid now))) = length (messages d)
       \<and> (\<forall>k < length (messages d).
             messages (snd (markAsRead d usr cid now)) ! k =
               (if m_conversation (messages d ! k) = cid
                   \<and> m_sender (messages d ! k) \<noteq> castObjectId (ru_id usr)
                   \<and> \<not> m_read (messages d ! k)
                then (messages d ! k)\<lparr>m_read := True, m_readAt := Some now\<rparr>
                else messages d ! k))
       \<and> (\<forall>rq res d' c p. handle d rq = (res, d') \<and> unread_in d c p < unread_in d' c p
             \<longrightarrow> (\<exists>errs sender content mtype new_id at.
                    rq = SendMessage errs sender c content mtype new_id at
                    \<and> castObjectId (ru_id sender) \<noteq> p \<and> fst res = 201))"
proof (intro conjI allI impI)
  show "fst (markAsRead d usr cid now) = (200, Success ''Messages marked as read'')"
    by (simp add: markAsRead_done [OF assms])
  show "unread_in (snd (markAsRead d usr cid now)) cid (castObjectId (ru_id usr)) = 0"
    by (simp add: unread_in_marked [OF assms])
  show "length (messages (snd (markAsRead d usr cid now))) = length (messages d)"
    by (simp add: markAsRead_done [OF assms])
next
  fix q assume "q \<noteq> castObjectId (ru_id usr)"
  then show "unread_in (snd (markAsRead d usr cid now)) cid q = unread_in d cid q"
    by (simp add: unread_in_marked [OF assms])
next
  fix k assume "k < length (messages d)"
  then show "messages (snd (markAsRead d usr cid now)) ! k =
               (if m_conversation (messages d ! k) = cid
                   \<and> m_sender (messages d ! k) \<noteq> castObjectId (ru_id usr)
                   \<and> \<not> m_read (messages d ! k)
                then (messages d ! k)\<lparr>m_read := True, m_readAt := Some now\<rparr>
                else messages d ! k)"
    by (simp add: markAsRead_done [OF assms] mark_read_def)
next
  fix rq res d' c p
  assume "handle d rq = (res, d') \<and> unread_in d c p < unread_in d' c p"
  then show "\<exists>errs sender content mtype new_id at.
                    rq = SendMessage errs sender c content mtype new_id at
                    \<and> castObjectId (ru_id sender) \<noteq> p \<and> fst res = 201"
    using unread_grows_only_by_others by blast
qed

theorem markAsRead_resets_reader_witness:
  "findById c_id (conversations chat) 300 = Some talk
   \<and> castObjectId (ru_id (attach sol)) \<in> set (participants talk)
   \<and> unread_in chat 300 2 = 3
   \<and> unread_in (snd (markAsRead chat (attach sol) 300 9)) 300 2 = 0
   \<and> unread_in (snd (markAsRead chat (attach sol) 300 9)) 300 1 = unread_in chat 300 1
   \<and> messages (snd (markAsRead chat (attach sol) 300 9)) ! 0
       = (note_of 400 1)\<lparr>m_read := True, m_readAt := Some 9\<rparr>
   \<and> messages (snd (markAsRead chat (attach sol) 300 9)) ! 1 = note_of 401 2
   \<and> unread_in chat 300 2
        < unread_in (snd (handle chat (SendMessage [] (attach bea) 300 ''hi'' ''text'' 402 9))) 300 2
   \<and> castObjectId (ru_id (attach bea)) \<noteq> 2"
proof -
  have me: "castObjectId (ru_id (attach sol)) = 2" by (simp add: attach_def sol_def)
  have part: "castObjectId (ru_id (attach sol)) \<in> set (participants talk)"
    by (simp add: me talk_def)
  have before: "unread_in chat 300 2 = 3"
    by (simp add: unread_in_def talk_found unread_of_def talk_def)
  have msgs: "messages chat = [note_of 400 1, note_of 401 2]" by (simp add: chat_def)
  have grows: "unread_in chat 300 2
        < unread_in (snd (handle chat (SendMessage [] (attach bea) 300 ''hi'' ''text'' 402 9))) 300 2"
    by (simp add: sendMessage_def chat_defs findById_def ru_id_getter_def message_valid_def
        unread_in_def unread_of_def save_def get_count_def)
  note th = markAsRead_resets_reader [OF talk_found part, of 9, unfolded me msgs]
  from th have "unread_in (snd (markAsRead chat (attach sol) 300 9)) 300 2 = 0" by simp
  moreover from th have "unread_in (snd (markAsRead chat (attach sol) 300 9)) 300 1 = unread_in chat 300 1"
    by simp
  moreover from th have "messages (snd (markAsRead chat (attach sol) 300 9)) ! 0
       = (note_of 400 1)\<lparr>m_read := True, m_readAt := Some 9\<rparr>"
    by (simp add: note_of_def)
  moreover from th have "messages (snd (markAsRead chat (attach sol) 300 9)) ! 1 = note_of 401 2"
    by (simp add: note_of_def)
  moreover from th grows have "castObjectId (ru_id (attach bea)) \<noteq> 2"
    using surjective_pairing [of "handle chat (SendMessage [] (attach bea) 300 ''hi'' ''text'' 402 9)"]
    by blast
  ultimately show ?thesis using talk_found part before grows by simp
qed

text \<open>In the order-thread stack, fetching a page of one message marks that message
  only and takes one off the thread's counter: the counter is not 0 and an unread message
  of the other sender stays unread.\<close>

theorem thread_page_leaves_unread:
  "thread_unread desk 100 = Some 2
   \<and> fst (fst (get_messages desk 1 100 1 1)) = 200
   \<and> thread_unread (snd (get_messages desk 1 100 1 1)) 100 = Some 1
   \<and> map tm_readBy (thread_messages (snd (get_messages desk 1 100 1 1))) = [[2], [2, 1]]"
  by (simp add: thread_unread_def desk_def get_messages_def line_of_def Let_def
      array_includes_def)

section \<open>Creating conversations\<close>

lemma createConversation_existing:
  assumes "findById u_id (users d) participantId = Some pu"
      and "find (matches_pair (castObjectId (ru_id usr)) participantId) (conversations d) = Some c"
  shows "createConversation d [] usr participantId orderId gigId new_id
           = ((200, ConversationData c), d)"
  using assms by (simp add: createConversation_def)

lemma createConversation_new:
  assumes "findById u_id (users d) participantId = Some pu"
      and "find (matches_pair (castObjectId (ru_id usr)) participantId) (conversations d) = None"
  shows "createConversation d [] usr participantId orderId gigId new_id
           = ((201, ConversationData (fresh_conversation usr participantId orderId gigId new_id)),
              d\<lparr>conversations := conversations d @
                   [fresh_conversation usr participantId orderId gigId new_id]\<rparr>)"
  using assms by (simp add: createConversation_def fresh_conversation_def Let_def)

lemma matches_fresh:
  "matches_pair a b (fresh_conversation usr participantId orderId gigId new_id)
     = (a \<in> {castObjectId (ru_id usr), participantId} \<and> b \<in> {castObjectId (ru_id usr), participantId})"
  by (auto simp: matches_pair_def fresh_conversation_def)

lemma createConversation_pairs:
  assumes "findById u_id (users d) participantId = Some pu"
      and "a \<noteq> b"
      and "length (filter (matches_pair a b) (conversations d)) \<le> 1"
  shows "length (filter (matches_pair a b)
           (conversations (snd (createConversation d [] usr participantId orderId gigId new_id)))) \<le> 1"
proof (cases "find (matches_pair (castObjectId (ru_id usr)) participantId) (conversations d)")
  case (Some c)
  then show ?thesis using assms by (simp add: createConversation_existing)
next
  case None
  let ?me = "castObjectId (ru_id usr)"
  show ?thesis
  proof (cases "matches_pair a b (fresh_conversation usr participantId orderId gigId new_id)")
    case False
    then show ?thesis using assms None by (simp add: createConversation_new)
  next
    case True
    with assms(2) have "(a = ?me \<and> b = participantId) \<or> (a = participantId \<and> b = ?me)"
      by (auto simp: matches_fresh)
    then have "filter (matches_pair a b) (conversations d) = []"
    proof
      assume "a = ?me \<and> b = participantId"
      with None show ?thesis by (simp add: filter_empty_of_find)
    next
      assume "a = participantId \<and> b = ?me"
      then have "matches_pair a b = matches_pair ?me participantId"
        by (auto simp: matches_pair_def fun_eq_iff)
      with None show ?thesis by (simp add: filter_empty_of_find)
    qed
    then show ?thesis using assms None True by (simp add: createConversation_new)
  qed
qed

lemma createConversation_again:
  assumes "findById u_id (users d) participantId = Some pu"
      and "createConversation d [] usr participantId orderId gigId new_id = (res, d')"
  shows "\<exists>c. res = (fst res, ConversationData c)
           \<and> createConversation d' [] usr participantId orderId' gigId' new_id'
                = ((200, ConversationData c), d')"
proof (cases "find (matches_pair (castObjectId (ru_id usr)) participantId) (conversations d)")
  case (Some c)
  with assms have "res = (200, ConversationData c)" "d' = d"
    by (simp_all add: createConversation_existing)
  with Some assms(1) show ?thesis by (simp add: createConversation_existing)
next
  case None
  let ?c = "fresh_conversation usr participantId orderId gigId new_id"
  from None assms have r: "res = (201, ConversationData ?c)"
    "d' = d\<lparr>conversations := conversations d @ [?c]\<rparr>"
    by (simp_all add: createConversation_new)
  have "find (matches_pair (castObjectId (ru_id usr)) participantId) (conversations d') = Some ?c"
    using None by (simp add: r find_append matches_fresh)
  moreover have "findById u_id (users d') participantId = Some pu" using assms(1) r by simp
  ultimately show ?thesis using r by (simp add: createConversation_existing)
qed

text \<open>
  Claim C10. For a request that passed the route's validators and names a stored user:
  if a conversation that is not blocked has both the caller and the requested participant
  among its participants, the first such conversation is returned with 200 and nothing is
  created; the same request sent again returns the conversation of the first answer and
  creates nothing; and for every two different users the operation never creates a second
  conversation that is not blocked and has both among its participants.
\<close>

theorem createConversation_idempotent:
  assumes "findById u_id (users d) participantId = Some pu"
      and "createConversation d [] usr participantId orderId gigId new_id = (res, d')"
  shows "((\<exists>c \<in> set (conversations d). matches_pair (castObjectId (ru_id usr)) participantId c)
             \<longrightarrow> d' = d
               \<and> (\<exists>c \<in> set (conversations d).
                     matches_pair (castObjectId (ru_id usr)) participantId c
                     \<and> res = (200, ConversationData c)))
       \<and> (\<exists>c. res = (fst res, ConversationData c)
             \<and> createConversation d' [] usr participantId orderId' gigId' new_id'
                  = ((200, ConversationData c), d'))
       \<and> (\<forall>a b. a \<noteq> b \<and> length (filter (matches_pair a b) (conversations d)) \<le> 1
             \<longrightarrow> length (filter (matches_pair a b) (conversations d')) \<le> 1)"
proof (intro conjI allI impI)
  assume "\<exists>c \<in> set (conversations d). matches_pair (castObjectId (ru_id usr)) participantId c"
  then have "find (matches_pair (castObjectId (ru_id usr)) participantId) (conversations d) \<noteq> None"
    by (auto simp: find_None_iff)
  then obtain c where
    c: "find (matches_pair (castObjectId (ru_id usr)) participantId) (conversations d) = Some c"
    by blast
  with assms have r: "res = (200, ConversationData c)" "d' = d"
    by (simp_all add: createConversation_existing)
  from r show "d' = d" by simp
  from find_Some_holds [OF c] r
  show "\<exists>c \<in> set (conversations d).
          matches_pair (castObjectId (ru_id usr)) participantId c \<and> res = (200, ConversationData c)"
    by blast
next
  show "\<exists>c. res = (fst res, ConversationData c)
             \<and> createConversation d' [] usr participantId orderId' gigId' new_id'
                  = ((200, ConversationData c), d')"
    using assms by (rule createConversation_again)
next
  fix a b :: oid
  assume "a \<noteq> b \<and> length (filter (matches_pair a b) (conversations d)) \<le> 1"
  then show "length (filter (matches_pair a b) (conversations d')) \<le> 1"
    using createConversation_pairs [OF assms(1), of a b usr orderId gigId new_id] assms(2)
    by simp
qed

theorem createConversation_idempotent_witness:
  "findById u_id (users chat) 2 = Some sol
   \<and> createConversation chat [] (attach bea) 2 None None 302 = ((200, ConversationData talk), chat)
   \<and> createConversation chat [] (attach bea) 2 (Some 100) None 303
        = ((200, ConversationData talk), chat)
   \<and> fst (fst (createConversation chat [] (attach bea) 3 None None 302)) = 201
   \<and> length (filter (matches_pair 1 3) (conversations chat)) = 0
   \<and> length (filter (matches_pair 1 3)
         (conversations (snd (createConversation chat [] (attach bea) 3 None None 302)))) = 1"
proof -
  have first: "find (matches_pair (castObjectId (ru_id (attach bea))) 2) (conversations chat)
      = Some talk"
    by (simp add: chat_def attach_def bea_def matches_pair_def talk_def)
  note th = createConversation_idempotent [OF sol_found surjective_pairing,
      of "attach bea" None None 302 "Some 100" None 303]
  have only: "\<And>c. c \<in> set (conversations chat) \<Longrightarrow>
      matches_pair (castObjectId (ru_id (attach bea))) 2 c \<Longrightarrow>
      fst (createConversation chat [] (attach bea) 2 None None 302) = (200, ConversationData c) \<Longrightarrow>
      c = talk"
    using first by (simp add: createConversation_existing [OF sol_found first])
  have "talk \<in> set (conversations chat)" "matches_pair (castObjectId (ru_id (attach bea))) 2 talk"
    by (simp_all add: chat_def attach_def bea_def matches_pair_def talk_def)
  with th only have one: "fst (createConversation chat [] (attach bea) 2 None None 302)
        = (200, ConversationData talk)"
    "snd (createConversation chat [] (attach bea) 2 None None 302) = chat"
    by blast+
  then have "createConversation chat [] (attach bea) 2 None None 302
        = ((200, ConversationData talk), chat)"
    by (simp add: prod_eq_iff)
  moreover from th one have "createConversation chat [] (attach bea) 2 (Some 100) None 303
        = ((200, ConversationData talk), chat)"
    by auto
  moreover have "fst (fst (createConversation chat [] (attach bea) 3 None None 302)) = 201"
    "length (filter (matches_pair 1 3) (conversations chat)) = 0"
    "length (filter (matches_pair 1 3)
         (conversations (snd (createConversation chat [] (attach bea) 3 None None 302)))) = 1"
    by (simp_all add: createConversation_def fresh_conversation_def chat_defs findById_def
        matches_pair_def ru_id_getter_def)
  ultimately show ?thesis using sol_found by simp
qed

section \<open>Login and token check\<close>

text \<open>
  Claim C7 (as amended). For a stored user found by the email of the request (as the
  schema lowers and trims it): a login with the right password of an account that is
  active, not suspended and has a valid role returns a token that \<open>protect\<close> accepts, for
  the same user store and before the token expires, attaching that user; the same login
  of an account that is inactive or suspended returns a token too, which \<open>protect\<close>
  answers with 401; a login with a wrong password that is a string is answered exactly as
  a login with an email that no user has, with 400 and the message
  \<open>Invalid credentials\<close>; and every login with a string password that is not answered
  200 gets this one answer, so that such an answer does not tell whether the email
  belongs to a user.
\<close>

theorem login_token_and_failures:
  assumes "find (\<lambda>u. u_email u = email_filter email) (users d) = Some u"
      and "findById u_id (users d) (u_id u) = Some u"
  shows "(compare pw (u_password u) \<and> u_isActive u \<and> \<not> u_isSuspended u
            \<and> u_role u \<in> set [''freelancer'', ''client'', ''admin''] \<and> later < now + 86400
          \<longrightarrow> (\<exists>tok. login compare secret now d email (Text pw)
                       = (200, LoginData (u_id u) (u_name u) (u_email u) (u_role u)
                                 (u_profilePicture u) tok)
                   \<and> protect secret later d (Some tok) = Inr (attach u)))
       \<and> (compare pw (u_password u) \<and> (\<not> u_isActive u \<or> u_isSuspended u)
          \<longrightarrow> (\<exists>tok. login compare secret now d email (Text pw)
                       = (200, LoginData (u_id u) (u_name u) (u_email u) (u_role u)
                                 (u_profilePicture u) tok)
                   \<and> (\<exists>body. protect secret later d (Some tok) = Inl (401, body))))
       \<and> (\<not> compare pw (u_password u)
              \<and> find (\<lambda>u. u_email u = email_filter email') (users d) = None
          \<longrightarrow> login compare secret now d email (Text pw)
                = (400, Message ''Invalid credentials'')
            \<and> login compare secret now d email' password'
                = login compare secret now d email (Text pw))
       \<and> (\<forall>any_email any_pw.
             fst (login compare secret now d any_email (Text any_pw)) \<noteq> 200
             \<longrightarrow> login compare secret now d any_email (Text any_pw)
                   = (400, Message ''Invalid credentials''))"
proof (intro conjI impI allI)
  assume "compare pw (u_password u) \<and> u_isActive u \<and> \<not> u_isSuspended u
            \<and> u_role u \<in> set [''freelancer'', ''client'', ''admin''] \<and> later < now + 86400"
  with assms show "\<exists>tok. login compare secret now d email (Text pw)
                       = (200, LoginData (u_id u) (u_name u) (u_email u) (u_role u)
                                 (u_profilePicture u) tok)
                   \<and> protect secret later d (Some tok) = Inr (attach u)"
    by (simp add: login_def protect_def generateToken_def jwt_sign_def jwt_verify_def)
next
  assume "compare pw (u_password u) \<and> (\<not> u_isActive u \<or> u_isSuspended u)"
  with assms show "\<exists>tok. login compare secret now d email (Text pw)
                       = (200, LoginData (u_id u) (u_name u) (u_email u) (u_role u)
                                 (u_profilePicture u) tok)
                   \<and> (\<exists>body. protect secret later d (Some tok) = Inl (401, body))"
    by (simp add: login_def protect_def generateToken_def jwt_sign_def jwt_verify_def)
next
  assume wrong: "\<not> compare pw (u_password u)
              \<and> find (\<lambda>u. u_email u = email_filter email') (users d) = None"
  with assms show "login compare secret now d email (Text pw)
                = (400, Message ''Invalid credentials'')"
    by (simp add: login_def)
  from wrong assms show "login compare secret now d email' password'
                = login compare secret now d email (Text pw)"
    by (simp add: login_def)
next
  fix any_email any_pw
  assume "fst (login compare secret now d any_email (Text any_pw)) \<noteq> 200"
  then show "login compare secret now d any_email (Text any_pw)
                   = (400, Message ''Invalid credentials'')"
    by (auto simp: login_def split: option.splits if_splits)
qed

lemma bea_by_email:
  "find (\<lambda>u. u_email u = email_filter ''  Bea@Example.COM '') (users market) = Some bea"
  by (simp add: market_def bea_def email_filter_def toLowerCase_def lower_char_def trim_def
      is_white_def)

lemma bea_by_id: "findById u_id (users market) (u_id bea) = Some bea"
  by (simp add: market_def bea_def findById_def)

theorem login_token_and_failures_witness:
  "find (\<lambda>u. u_email u = email_filter ''  Bea@Example.COM '') (users market) = Some bea
   \<and> findById u_id (users market) (u_id bea) = Some bea
   \<and> sample_compare ''tulip'' (u_password bea)
   \<and> protect ''k3y'' 3600 market
        (issued_token
           (login sample_compare ''k3y'' 0 market ''  Bea@Example.COM '' (Text ''tulip'')))
       = Inr (attach bea)
   \<and> login sample_compare ''k3y'' 0 market ''  Bea@Example.COM '' (Text ''rose'')
       = (400, Message ''Invalid credentials'')
   \<and> login sample_compare ''k3y'' 0 market ''zoe@example.com'' (Text ''tulip'')
       = login sample_compare ''k3y'' 0 market ''  Bea@Example.COM '' (Text ''rose'')
   \<and> login sample_compare ''k3y'' 0 market ''zoe@example.com'' (Other ''undefined'')
       = login sample_compare ''k3y'' 0 market ''  Bea@Example.COM '' (Text ''rose'')"
proof -
  have ok: "sample_compare ''tulip'' (u_password bea)" "\<not> sample_compare ''rose'' (u_password bea)"
    "u_isActive bea" "\<not> u_isSuspended bea" "u_role bea \<in> set [''freelancer'', ''client'', ''admin'']"
    "find (\<lambda>u. u_email u = email_filter ''zoe@example.com'') (users market) = None"
    by (simp_all add: sample_compare_def bea_def market_def sol_def ada_def kim_def
        email_filter_def toLowerCase_def lower_char_def trim_def is_white_def)
  from login_token_and_failures [OF bea_by_email bea_by_id, where compare = sample_compare
      and pw = "''tulip''" and later = 3600 and now = 0 and secret = "''k3y''"] ok
  have "protect ''k3y'' 3600 market
        (issued_token
           (login sample_compare ''k3y'' 0 market ''  Bea@Example.COM '' (Text ''tulip'')))
       = Inr (attach bea)"
    by auto
  moreover
  from login_token_and_failures [OF bea_by_email bea_by_id, where compare = sample_compare
      and pw = "''rose''" and email' = "''zoe@example.com''" and secret = "''k3y''"
      and now = 0 and password' = "Text ''tulip''"] ok
  have "login sample_compare ''k3y'' 0 market ''  Bea@Example.COM '' (Text ''rose'')
       = (400, Message ''Invalid credentials'')"
    "login sample_compare ''k3y'' 0 market ''zoe@example.com'' (Text ''tulip'')
       = login sample_compare ''k3y'' 0 market ''  Bea@Example.COM '' (Text ''rose'')"
    by auto
  moreover
  from login_token_and_failures [OF bea_by_email bea_by_id, where compare = sample_compare
      and pw = "''rose''" and email' = "''zoe@example.com''" and secret = "''k3y''"
      and now = 0 and password' = "Other ''undefined''"] ok
  have "login sample_compare ''k3y'' 0 market ''zoe@example.com'' (Other ''undefined'')
       = login sample_compare ''k3y'' 0 market ''  Bea@Example.COM '' (Text ''rose'')"
    by auto
  ultimately show ?thesis using bea_by_email bea_by_id ok(1) by simp
qed

text \<open>A suspended user logs in with the right password and the token is refused. And a
  request without a password is answered 500 for the email of a user and 400 for an
  email that no user has.\<close>

theorem suspended_token_and_missing_password:
  "sample_compare ''lotus'' (u_password kim)
   \<and> fst (login sample_compare ''k3y'' 0 market ''kim@example.com'' (Text ''lotus'')) = 200
   \<and> protect ''k3y'' 3600 market
        (issued_token (login sample_compare ''k3y'' 0 market ''kim@example.com'' (Text ''lotus'')))
       = Inl (401, Failure ''Account is suspended'')
   \<and> login sample_compare ''k3y'' 0 market ''bea@example.com'' (Other ''undefined'')
       = (500, ServerFailure ''Illegal arguments: undefined, string'')
   \<and> login sample_compare ''k3y'' 0 market ''zoe@example.com'' (Other ''undefined'')
       = (400, Message ''Invalid credentials'')"
  by (simp add: login_def protect_def generateToken_def jwt_sign_def jwt_verify_def
      sample_compare_def market_def bea_def sol_def ada_def kim_def findById_def
      email_filter_def toLowerCase_def lower_char_def trim_def is_white_def)

section \<open>The primary image of a gig\<close>

lemma primaries_addImage:
  "\<not> isPrimary imageData \<Longrightarrow> primaries g \<le> 1 \<Longrightarrow> primaries (addImage g imageData) \<le> 1"
  by (cases "images g") (auto simp: primaries_def addImage_def)

lemma flag_fun:
  "(isPrimary \<circ> (\<lambda>(index, img). img\<lparr>isPrimary := (int index = k)\<rparr>))
     = (\<lambda>(index, img). int index = k)"
  by (auto simp: fun_eq_iff)

lemma none_flagged:
  "k < int n \<Longrightarrow> filter (\<lambda>(index, img). int index = k) (enumerate n xs) = []"
  by (induction xs arbitrary: n) auto

lemma one_flagged:
  "length (filter (\<lambda>(index, img). int index = k) (enumerate n xs)) \<le> 1"
proof (induction xs arbitrary: n)
  case Nil
  show ?case by simp
next
  case (Cons x xs)
  show ?case
  proof (cases "int n = k")
    case True
    then have "k < int (Suc n)" by simp
    from none_flagged [OF this] True show ?thesis by simp
  next
    case False
    with Cons [of "Suc n"] show ?thesis by simp
  qed
qed

lemma primaries_setPrimaryImage:
  "setPrimaryImage g i = Inr g' \<Longrightarrow> primaries g' \<le> 1"
  using one_flagged [of i 0 "images g"]
  by (auto simp: setPrimaryImage_def primaries_def flag_fun split: if_splits)

lemma filter_remove_nth:
  assumes "k < length xs"
  shows "length (filter P xs)
           = length (filter P (take k xs @ drop (Suc k) xs)) + (if P (xs ! k) then 1 else 0)"
proof -
  have "xs = take k xs @ xs ! k # drop (Suc k) xs" using assms by (rule id_take_nth_drop)
  then have "length (filter P xs) = length (filter P (take k xs @ xs ! k # drop (Suc k) xs))"
    by simp
  then show ?thesis by simp
qed

lemma primaries_removeImage:
  assumes "removeImage g i = Inr g'" and "primaries g \<le> 1"
  shows "primaries g' \<le> 1"
proof -
  from assms(1) have range: "0 \<le> i" "nat i < length (images g)"
    by (auto simp: removeImage_def split: if_splits)
  let ?rest = "take (nat i) (images g) @ drop (Suc (nat i)) (images g)"
  have count: "length (filter isPrimary (images g))
                 = length (filter isPrimary ?rest) + (if isPrimary (images g ! nat i) then 1 else 0)"
    using range(2) by (rule filter_remove_nth)
  show ?thesis
  proof (cases "isPrimary (images g ! nat i) \<and> 0 < length ?rest")
    case True
    with count assms(2) have none: "filter isPrimary ?rest = []" by (simp add: primaries_def)
    from True obtain y ys where r: "?rest = y # ys" by (cases ?rest) auto
    with none have "filter isPrimary ys = []" by (simp split: if_splits)
    moreover from assms(1) range True r have "images g' = y\<lparr>isPrimary := True\<rparr> # ys"
      by (auto simp: removeImage_def Let_def split: if_splits)
    ultimately show ?thesis by (simp add: primaries_def)
  next
    case False
    with assms(1) range have "images g' = ?rest"
      by (auto simp: removeImage_def Let_def split: if_splits)
    with count assms(2) show ?thesis by (simp add: primaries_def split: if_splits)
  qed
qed

lemma primaries_image_step:
  "adds_plain op \<Longrightarrow> primaries g \<le> 1 \<Longrightarrow> primaries (image_step g op) \<le> 1"
proof (cases op)
  case (AddImage imageData)
  assume "adds_plain op" "primaries g \<le> 1"
  with AddImage show ?thesis using primaries_addImage [of imageData g] by simp
next
  case (SetPrimaryImage i)
  assume "primaries g \<le> 1"
  with SetPrimaryImage show ?thesis
    using primaries_setPrimaryImage [of g i] by (cases "setPrimaryImage g i") simp_all
next
  case (RemoveImage i)
  assume "primaries g \<le> 1"
  with RemoveImage show ?thesis
    using primaries_removeImage [of g i] by (cases "removeImage g i") simp_all
qed

lemma primaries_foldl:
  "list_all adds_plain ops \<Longrightarrow> primaries g \<le> 1 \<Longrightarrow> primaries (foldl image_step g ops) \<le> 1"
proof (induction ops arbitrary: g)
  case Nil
  then show ?case by simp
next
  case (Cons op ops)
  from Cons.prems have ok: "adds_plain op" "list_all adds_plain ops" by simp_all
  from ok(1) Cons.prems(2) have "primaries (image_step g op) \<le> 1"
    by (rule primaries_image_step)
  with ok(2) have "primaries (foldl image_step (image_step g op) ops) \<le> 1"
    by (rule Cons.IH)
  then show ?case by simp
qed

lemma removeImage_promotes:
  assumes "removeImage g i = Inr g'" and "isPrimary (images g ! nat i)" and "images g' \<noteq> []"
  shows "isPrimary (hd (images g'))"
  using assms by (auto simp: removeImage_def Let_def split: if_splits)

text \<open>
  Claim C8 (as amended). For every gig with at most one primary image, after any sequence
  of \<open>addImage\<close>, \<open>setPrimaryImage\<close> and \<open>removeImage\<close> in which the images added are
  not flagged primary by the caller (as the upload helper builds them), at most one image
  is primary; and whenever \<open>removeImage\<close> removes an image flagged primary while other
  images remain, the first remaining image is primary.
\<close>

theorem image_operations_keep_one_primary:
  "(primaries g \<le> 1 \<and> list_all adds_plain ops \<longrightarrow> primaries (foldl image_step g ops) \<le> 1)
   \<and> (\<forall>i g'. removeImage g i = Inr g' \<and> isPrimary (images g ! nat i) \<and> images g' \<noteq> []
         \<longrightarrow> isPrimary (hd (images g')))"
  using primaries_foldl removeImage_promotes by blast

theorem image_operations_keep_one_primary_witness:
  "primaries logo_gig \<le> 1
   \<and> list_all adds_plain [AddImage (pic ''a'' False), AddImage (pic ''b'' False),
        SetPrimaryImage 1, RemoveImage 1]
   \<and> primaries (foldl image_step logo_gig [AddImage (pic ''a'' False), AddImage (pic ''b'' False),
        SetPrimaryImage 1, RemoveImage 1]) \<le> 1
   \<and> images (foldl image_step logo_gig [AddImage (pic ''a'' False), AddImage (pic ''b'' False),
        SetPrimaryImage 1, RemoveImage 1]) = [pic ''a'' True]"
  using image_operations_keep_one_primary [of logo_gig "[AddImage (pic ''a'' False),
        AddImage (pic ''b'' False), SetPrimaryImage 1, RemoveImage 1]"]
  by (simp add: primaries_def logo_gig_def pic_def addImage_def setPrimaryImage_def
      removeImage_def Let_def)

text \<open>\<open>addImage\<close> keeps the flag of an image that its caller flagged primary.\<close>

theorem primary_upload_makes_two:
  "primaries logo_gig = 0
   \<and> primaries (foldl image_step logo_gig [AddImage (pic ''a'' False), AddImage (pic ''b'' True)]) = 2"
  by (simp add: primaries_def logo_gig_def pic_def addImage_def)

end
